theory Spec2Isabelle
  imports Main
begin

section \<open>Python and Qt primitives used by the analysis page\<close>

text \<open>
  The combo boxes of the loading widget are created with fixed item lists
  (\<open>["Volume", "Graph"]\<close> and \<open>["None", "ID", "RGB"]\<close>). A datatype stands for the
  current item; \<open>currentText()\<close> and \<open>currentIndex()\<close> are functions of it, so every
  string comparison of the source is a string comparison here.
\<close>

datatype DatasetType = Volume | Graph

datatype AnnotationType = AnnNone | AnnID | AnnRGB

fun datasetType_currentText :: "DatasetType \<Rightarrow> string" where
  "datasetType_currentText Volume = ''Volume''"
| "datasetType_currentText Graph = ''Graph''"

fun annotationType_currentText :: "AnnotationType \<Rightarrow> string" where
  "annotationType_currentText AnnNone = ''None''"
| "annotationType_currentText AnnID = ''ID''"
| "annotationType_currentText AnnRGB = ''RGB''"

fun annotationType_currentIndex :: "AnnotationType \<Rightarrow> nat" where
  "annotationType_currentIndex AnnNone = 0"
| "annotationType_currentIndex AnnID = 1"
| "annotationType_currentIndex AnnRGB = 2"

text \<open>\<open>os.path.basename\<close> (POSIX): the text after the last slash.\<close>

definition basename :: "string \<Rightarrow> string" where
  "basename p = rev (takeWhile (\<lambda>c. c \<noteq> CHR ''/'') (rev p))"

text \<open>\<open>str(n)\<close> of a non-negative integer, as the f-string \<open>f"0/{count}"\<close> renders it.\<close>

definition digit_char :: "nat \<Rightarrow> char" where
  "digit_char d = ''0123456789'' ! d"

fun str_nat :: "nat \<Rightarrow> string" where
  "str_nat n = (if n < 10 then [digit_char n] else str_nat (n div 10) @ [digit_char (n mod 10)])"

declare str_nat.simps [simp del]

text \<open>
  A Python \<open>dict\<close> is the list of its items in insertion order (the keys of a dict are
  distinct): \<open>len(d)\<close> is the length of the list, \<open>k in d.keys()\<close> is membership among
  the first components and \<open>d[k]\<close> is \<open>map_of d k\<close>.
\<close>

type_synonym ('k, 'v) dict = "('k \<times> 'v) list"

definition dict_len :: "('k, 'v) dict \<Rightarrow> nat" where
  "dict_len d = length d"

definition dict_keys :: "('k, 'v) dict \<Rightarrow> 'k list" where
  "dict_keys d = map fst d"

definition dict_get :: "('k, 'v) dict \<Rightarrow> 'k \<Rightarrow> 'v option" where
  "dict_get d k = map_of d k"

section \<open>JSON values and the annotation catalog\<close>

text \<open>
  What \<open>json.load\<close> returns: \<open>None\<close>, a bool, a number, a \<open>str\<close>, a \<open>list\<close> or a \<open>dict\<close>
  with string keys. A \<open>char\<close> of a string stands for one character of the Python \<open>str\<close>, and
  a number is kept as an integer, since the page reads of a number only whether it is zero.
\<close>

datatype json =
  JNull | JBool bool | JNumber int | JString string | JArray "json list"
  | JObject "(string \<times> json) list"

text \<open>The exceptions the page can raise, with the name of the attribute, function or key.\<close>

datatype py_error = AttributeError string | TypeError string | KeyError string

text \<open>
  \<open>len(x)\<close>, \<open>x.keys()\<close> and \<open>x[k]\<close> on a parsed value: \<open>None\<close>, bools and numbers have no
  length, only a \<open>dict\<close> has \<open>keys()\<close>, and subscripting is used on a \<open>dict\<close> only.
\<close>

fun py_len :: "json \<Rightarrow> py_error + nat" where
  "py_len (JObject d) = Inr (dict_len d)"
| "py_len (JArray xs) = Inr (length xs)"
| "py_len (JString s) = Inr (length s)"
| "py_len JNull = Inl (TypeError ''len'')"
| "py_len (JBool b) = Inl (TypeError ''len'')"
| "py_len (JNumber n) = Inl (TypeError ''len'')"

fun py_keys :: "json \<Rightarrow> py_error + string list" where
  "py_keys (JObject d) = Inr (dict_keys d)"
| "py_keys JNull = Inl (AttributeError ''keys'')"
| "py_keys (JBool b) = Inl (AttributeError ''keys'')"
| "py_keys (JNumber n) = Inl (AttributeError ''keys'')"
| "py_keys (JString s) = Inl (AttributeError ''keys'')"
| "py_keys (JArray xs) = Inl (AttributeError ''keys'')"

fun py_getitem :: "json \<Rightarrow> string \<Rightarrow> py_error + json" where
  "py_getitem (JObject d) k = (case dict_get d k of None \<Rightarrow> Inl (KeyError k) | Some v \<Rightarrow> Inr v)"
| "py_getitem JNull k = Inl (TypeError ''subscript'')"
| "py_getitem (JBool b) k = Inl (TypeError ''subscript'')"
| "py_getitem (JNumber n) k = Inl (TypeError ''subscript'')"
| "py_getitem (JString s) k = Inl (TypeError ''subscript'')"
| "py_getitem (JArray xs) k = Inl (TypeError ''subscript'')"

text \<open>Truthiness of a parsed value: \<open>None\<close>, \<open>False\<close>, zero and the empty containers are false.\<close>

fun py_truthy :: "json \<Rightarrow> bool" where
  "py_truthy JNull = False"
| "py_truthy (JBool b) = b"
| "py_truthy (JNumber n) = (n \<noteq> 0)"
| "py_truthy (JString s) = (s \<noteq> [])"
| "py_truthy (JArray xs) = (xs \<noteq> [])"
| "py_truthy (JObject d) = (d \<noteq> [])"

text \<open>
  A catalog is the \<open>dict\<close> under the marker key of an annotation file: it sends a region
  name to the definition of the region, itself a parsed value.
\<close>

type_synonym catalog = "(string, json) dict"

definition catalog_marker :: string where
  "catalog_marker = ''VesselVio Annotations''"

text \<open>
  Modelled from the spec: \<open>RGB_check\<close> is imported from
  \<open>library.annotation_processing\<close>, which is not among the sources. The spec says the
  loader "scans all region definitions for duplicate color triples": the check holds when
  some colour triple occurs twice among the colours of all region definitions. The colour
  triples of a region definition are taken to be the entries of the array under its key
  \<open>colors\<close>; a value that is not a \<open>dict\<close> has no region definitions.
\<close>

fun region_colors :: "json \<Rightarrow> json list" where
  "region_colors (JObject fields) =
     (case dict_get fields ''colors'' of Some (JArray cs) \<Rightarrow> cs | _ \<Rightarrow> [])"
| "region_colors JNull = []"
| "region_colors (JBool b) = []"
| "region_colors (JNumber n) = []"
| "region_colors (JString s) = []"
| "region_colors (JArray xs) = []"

fun RGB_check :: "json \<Rightarrow> bool" where
  "RGB_check (JObject annotation_data) =
     (\<not> distinct (concat (map (\<lambda>(k, r). region_colors r) annotation_data)))"
| "RGB_check JNull = False"
| "RGB_check (JBool b) = False"
| "RGB_check (JNumber n) = False"
| "RGB_check (JString s) = False"
| "RGB_check (JArray xs) = False"

text \<open>Truthiness of \<open>self.annotation_data\<close>: \<open>None\<close> and the empty dict are false.\<close>

fun truthy :: "catalog option \<Rightarrow> bool" where
  "truthy None = False"
| "truthy (Some d) = (d \<noteq> [])"

section \<open>FileSheet: the table of loaded files\<close>

text \<open>
  The \<open>QTableWidget\<close> holds a number of rows and columns, the header labels and the text
  of each cell (\<open>None\<close> for a cell with no item). The Qt operations used by the page:
  \<open>setItem\<close> outside the table does nothing, \<open>insertRow\<close> adds an empty row,
  \<open>removeRow\<close> deletes a row and moves the later rows up, \<open>setRowCount(0)\<close> deletes every
  row, and \<open>setColumnCount(0)\<close> followed by \<open>setColumnCount(n)\<close> leaves \<open>n\<close> empty columns and
  keeps the number of rows.
\<close>

record FileSheet =
  columnCount :: nat
  rowCount :: nat
  horizontalHeaderLabels :: "string list"
  columnWidths :: "nat list"
  item :: "nat \<Rightarrow> nat \<Rightarrow> string option"

definition setItem :: "nat \<Rightarrow> nat \<Rightarrow> string \<Rightarrow> FileSheet \<Rightarrow> FileSheet" where
  "setItem r c txt sh =
     (if r < rowCount sh \<and> c < columnCount sh
      then sh\<lparr>item := (item sh)(r := (item sh r)(c := Some txt))\<rparr>
      else sh)"

definition insertRow :: "nat \<Rightarrow> FileSheet \<Rightarrow> FileSheet" where
  "insertRow r sh =
     (if r \<le> rowCount sh
      then sh\<lparr>rowCount := rowCount sh + 1,
              item := (\<lambda>i. if i < r then item sh i else if i = r then (\<lambda>c. None) else item sh (i - 1))\<rparr>
      else sh)"

definition removeRow :: "nat \<Rightarrow> FileSheet \<Rightarrow> FileSheet" where
  "removeRow r sh =
     (if r < rowCount sh
      then sh\<lparr>rowCount := rowCount sh - 1,
              item := (\<lambda>i. if i < r then item sh i else item sh (i + 1))\<rparr>
      else sh)"

definition clearRows :: "FileSheet \<Rightarrow> FileSheet" where
  "clearRows sh = sh\<lparr>rowCount := 0, item := (\<lambda>i c. None)\<rparr>"

definition set_format :: "nat \<Rightarrow> nat list \<Rightarrow> string list \<Rightarrow> FileSheet \<Rightarrow> FileSheet" where
  "set_format column_count widths header sh =
     sh\<lparr>columnCount := column_count, columnWidths := widths,
        horizontalHeaderLabels := header, item := (\<lambda>i c. None)\<rparr>"

definition init_default :: "FileSheet \<Rightarrow> FileSheet" where
  "init_default sh = set_format 2 [300, 200] [''File Name'', ''File Status''] sh"

definition init_annotation :: "FileSheet \<Rightarrow> FileSheet" where
  "init_annotation sh =
     set_format 4 [200, 200, 150, 200]
       [''File Name'', ''Annotation File Name'', ''Regions Processed'', ''File Status''] sh"

definition init_csv :: "FileSheet \<Rightarrow> FileSheet" where
  "init_csv sh =
     set_format 3 (replicate 3 200)
       [''File Name - Vertices'', ''File Name - Edges'', ''File Status''] sh"

text \<open>\<open>FileSheet.__init__\<close>: an empty table in the default format.\<close>

definition FileSheet_init :: FileSheet where
  "FileSheet_init =
     init_default \<lparr>columnCount = 0, rowCount = 0, horizontalHeaderLabels = [],
                   columnWidths = [], item = (\<lambda>i c. None)\<rparr>"

section \<open>LoadingWidget\<close>

text \<open>
  The fields of the loading widget that the page logic reads or writes. A cell of the file
  sheet is addressed as in the source; the item lists of the two combo boxes are the
  datatypes above.
\<close>

record LoadingWidget =
  column1_files :: "string list"
  column2_files :: "string list"
  annotation_data :: "catalog option"
  datasetType :: DatasetType
  annotationType :: AnnotationType
  annotationType_disabled :: bool
  loadAnnotationFile_visible :: bool
  loadedJSON_text :: string
  loadedJSON_styleSheet :: string
  JSONdefault :: string
  fileSheet :: FileSheet

text \<open>\<open>LoadingWidget.__init__\<close>; the default style sheet of the line edit is a parameter.\<close>

definition LoadingWidget_init :: "string \<Rightarrow> LoadingWidget" where
  "LoadingWidget_init style =
     \<lparr>column1_files = [], column2_files = [], annotation_data = None,
      datasetType = Volume, annotationType = AnnNone, annotationType_disabled = False,
      loadAnnotationFile_visible = False, loadedJSON_text = ''None'',
      loadedJSON_styleSheet = style, JSONdefault = style, fileSheet = FileSheet_init\<rparr>"

subsection \<open>Status management\<close>

text \<open>The text of the progress column: \<open>f"0/{count}"\<close> or \<open>"Load JSON!"\<close>.\<close>

fun regions_status :: "catalog option \<Rightarrow> string" where
  "regions_status None = ''Load JSON!''"
| "regions_status (Some d) =
     (if d \<noteq> [] then ''0/'' @ str_nat (length (dict_keys d)) else ''Load JSON!'')"

definition update_queue :: "LoadingWidget \<Rightarrow> LoadingWidget" where
  "update_queue w =
     (let sh = fileSheet w;
          last_column = columnCount sh - 1;
          sh1 = fold (\<lambda>i. setItem i last_column ''Queued...'') [0..<rowCount sh] sh
      in if columnCount sh1 = 4
         then (let status = regions_status (annotation_data w);
                   last_column = last_column - 1
               in w\<lparr>fileSheet := fold (\<lambda>i. setItem i last_column status) [0..<rowCount sh1] sh1\<rparr>)
         else w\<lparr>fileSheet := sh1\<rparr>)"

subsection \<open>File management\<close>

text \<open>
  The loop \<open>for i, file in enumerate(files)\<close> of \<open>add_column1_files\<close> (column 0) and
  \<open>add_column2_files\<close> (column 1).
\<close>

fun add_files :: "nat \<Rightarrow> nat \<Rightarrow> string list \<Rightarrow> FileSheet \<Rightarrow> FileSheet" where
  "add_files column i [] sh = sh"
| "add_files column i (file # files) sh =
     (let sh1 = (if i + 1 > rowCount sh then insertRow (rowCount sh) sh else sh);
          filename = basename file
      in add_files column (i + 1) files (setItem i column filename sh1))"

definition add_column1_files :: "LoadingWidget \<Rightarrow> LoadingWidget" where
  "add_column1_files w =
     update_queue (w\<lparr>fileSheet := add_files 0 0 (column1_files w) (fileSheet w)\<rparr>)"

definition add_column2_files :: "LoadingWidget \<Rightarrow> LoadingWidget" where
  "add_column2_files w =
     update_queue (w\<lparr>fileSheet := add_files 1 0 (column2_files w) (fileSheet w)\<rparr>)"

text \<open>\<open>del xs[index]\<close> for an index the caller has checked to be below \<open>len(xs)\<close>.\<close>

definition list_del :: "nat \<Rightarrow> 'a list \<Rightarrow> 'a list" where
  "list_del index xs = take index xs @ drop (Suc index) xs"

text \<open>
  \<open>remove_file\<close>: the selection is \<open>None\<close> when \<open>hasSelection()\<close> is false and otherwise the
  current row, a row of the table.
\<close>

definition remove_file :: "nat option \<Rightarrow> LoadingWidget \<Rightarrow> LoadingWidget" where
  "remove_file selection w =
     (let columns = columnCount (fileSheet w)
      in case selection of
           None \<Rightarrow> w
         | Some index \<Rightarrow>
             (let w1 = w\<lparr>fileSheet := removeRow index (fileSheet w)\<rparr>;
                  w2 = (if index < length (column1_files w1)
                        then w1\<lparr>column1_files := list_del index (column1_files w1)\<rparr>
                        else w1)
              in if columns = 3
                 then (if index < length (column2_files w2)
                       then w2\<lparr>column2_files := list_del index (column2_files w2)\<rparr>
                       else w2)
                 else w2))"

definition clear_files :: "LoadingWidget \<Rightarrow> LoadingWidget" where
  "clear_files w =
     w\<lparr>fileSheet := clearRows (fileSheet w), column1_files := [], column2_files := []\<rparr>"

subsection \<open>Mode changes\<close>

definition file_type_options :: "LoadingWidget \<Rightarrow> LoadingWidget" where
  "file_type_options w =
     (let visible = (datasetType_currentText (datasetType w) = ''Graph'');
          w1 = (if visible then w else w\<lparr>fileSheet := init_default (fileSheet w)\<rparr>);
          w2 = (if annotationType_currentIndex (annotationType w1) \<noteq> 0
                then w1\<lparr>loadAnnotationFile_visible := (\<not> visible)\<rparr>
                else w1);
          w3 = w2\<lparr>annotationType_disabled := visible\<rparr>
      in clear_files w3)"

definition annotation_options :: "LoadingWidget \<Rightarrow> LoadingWidget" where
  "annotation_options w =
     (let w1 = (if annotationType_currentIndex (annotationType w) \<noteq> 0
                then w\<lparr>fileSheet := init_annotation (fileSheet w),
                       loadAnnotationFile_visible := True\<rparr>
                else w\<lparr>fileSheet := init_default (fileSheet w), column2_files := [],
                       loadAnnotationFile_visible := False\<rparr>)
      in add_column1_files w1)"

definition update_JSON :: "LoadingWidget \<Rightarrow> LoadingWidget" where
  "update_JSON w =
     (if annotationType_currentText (annotationType w) = ''None''
      then w\<lparr>annotation_data := None, loadedJSON_text := ''None''\<rparr>
      else w)"

subsection \<open>JSON file loading\<close>

definition JSON_error :: "string \<Rightarrow> LoadingWidget \<Rightarrow> LoadingWidget" where
  "JSON_error warning w =
     w\<lparr>loadedJSON_styleSheet := ''border: 1px solid red;'', loadedJSON_text := warning\<rparr>"

text \<open>The button the user presses in the \<open>RGB_Warning\<close> dialog.\<close>

datatype StandardButton = Yes | No

text \<open>
  What a call of \<open>load_annotation_file\<close> that returned did: no file was chosen, the document
  was refused with \<open>Incorrect filetype!\<close>, the duplicate-colour warning was shown and
  declined, it was shown and confirmed, or the value under the marker key was stored
  without a warning.
\<close>

datatype load_trace =
  NoFileSelected | IncorrectFiletype | WarningDeclined | WarningConfirmed | LoadedDirectly

text \<open>
  The result of a call. \<open>Returned t w\<close>: the call returned, having done \<open>t\<close>, and left the
  widget \<open>w\<close>. \<open>Raised e\<close>: the call raised \<open>e\<close> before it assigned anything.
  \<open>StoredOther v e w\<close>: the value \<open>v\<close> under the marker key is neither \<open>None\<close> nor a \<open>dict\<close>
  and was assigned to \<open>self.annotation_data\<close>; the field \<open>annotation_data\<close> of the record
  holds \<open>None\<close> or a catalog only, so the value is carried here and the field of \<open>w\<close> is
  \<open>None\<close>; the other fields of \<open>w\<close> are those the call left, and \<open>e\<close> is the exception
  \<open>update_queue\<close> then raised, if it raised one.
\<close>

datatype load_result =
  Returned load_trace LoadingWidget
  | Raised py_error
  | StoredOther json "py_error option" LoadingWidget

text \<open>Lines 522 to 526 for a value the widget can hold (\<open>None\<close> or a catalog).\<close>

definition store_annotation_data ::
    "string \<Rightarrow> catalog option \<Rightarrow> LoadingWidget \<Rightarrow> LoadingWidget" where
  "store_annotation_data loaded_file data w =
     update_queue (w\<lparr>loadedJSON_styleSheet := JSONdefault w,
                      loadedJSON_text := basename loaded_file,
                      annotation_data := data\<rparr>)"

text \<open>
  \<open>update_queue\<close> up to line 466 on a sheet of four columns when \<open>self.annotation_data\<close> is
  true and has no \<open>keys()\<close>: the status column is written, then the call raises.
\<close>

definition update_queue_until_keys :: "LoadingWidget \<Rightarrow> LoadingWidget" where
  "update_queue_until_keys w =
     w\<lparr>fileSheet := fold (\<lambda>i. setItem i (columnCount (fileSheet w) - 1) ''Queued...'')
                        [0..<rowCount (fileSheet w)] (fileSheet w)\<rparr>"

text \<open>
  Lines 522 to 526 for any value \<open>v\<close> under the marker key. A value that is true and not a
  \<open>dict\<close> makes \<open>update_queue\<close> raise on a sheet of four columns (it has no \<open>keys()\<close>); a
  false one is read by \<open>update_queue\<close> as \<open>None\<close> is.
\<close>

fun store_value :: "load_trace \<Rightarrow> string \<Rightarrow> json \<Rightarrow> LoadingWidget \<Rightarrow> load_result" where
  "store_value t loaded_file (JObject regions) w =
     Returned t (store_annotation_data loaded_file (Some regions) w)"
| "store_value t loaded_file JNull w =
     Returned t (store_annotation_data loaded_file None w)"
| "store_value t loaded_file v w =
     (if columnCount (fileSheet w) = 4 \<and> py_truthy v
      then StoredOther v (Some (AttributeError ''keys''))
             (update_queue_until_keys
                (w\<lparr>loadedJSON_styleSheet := JSONdefault w,
                   loadedJSON_text := basename loaded_file,
                   annotation_data := None\<rparr>))
      else StoredOther v None (store_annotation_data loaded_file None w))"

text \<open>
  \<open>load_annotation_file\<close>: \<open>loaded_file\<close> is the path returned by the file dialog (empty when
  the user chose none), \<open>annotation_doc\<close> the value \<open>json.load\<close> parsed from it (a file that
  does not parse raises before line 509), and \<open>reply\<close> the user's answer to the warning
  dialog, read only when the dialog is shown. The \<open>or\<close> of line 510 evaluates
  \<open>annotation_data.keys()\<close> only when the length is 1.
\<close>

definition load_annotation_file ::
    "string \<Rightarrow> json \<Rightarrow> StandardButton \<Rightarrow> LoadingWidget \<Rightarrow> load_result" where
  "load_annotation_file loaded_file annotation_doc reply w =
     (if loaded_file = [] then Returned NoFileSelected w
      else (case py_len annotation_doc of
              Inl e \<Rightarrow> Raised e
            | Inr n \<Rightarrow>
                if n \<noteq> 1 then Returned IncorrectFiletype (JSON_error ''Incorrect filetype!'' w)
                else (case py_keys annotation_doc of
                        Inl e \<Rightarrow> Raised e
                      | Inr ks \<Rightarrow>
                          if catalog_marker \<notin> set ks
                          then Returned IncorrectFiletype (JSON_error ''Incorrect filetype!'' w)
                          else (case py_getitem annotation_doc catalog_marker of
                                  Inl e \<Rightarrow> Raised e
                                | Inr regions \<Rightarrow>
                                    if annotationType_currentText (annotationType w) = ''RGB''
                                       \<and> RGB_check regions
                                    then (if reply = No then Returned WarningDeclined w
                                          else store_value WarningConfirmed loaded_file regions w)
                                    else store_value LoadedDirectly loaded_file regions w))))"

section \<open>AnalysisPage\<close>

text \<open>
  The analysis thread the page creates: its class, the arguments it was built from, which
  of its signals the page has connected, and whether \<open>start()\<close> was called.
\<close>

datatype thread_class = VolumeThread | GraphThread

record AnalysisThread =
  thread_class :: thread_class
  thread_annotation_type :: "string option"
  thread_column1_files :: "string list"
  thread_column2_files :: "string list"
  thread_annotation_data :: "catalog option"
  button_lock_connected :: bool
  selection_signal_connected :: bool
  analysis_status_connected :: bool
  started :: bool

text \<open>
  The page: \<open>graphFormat\<close> is the current text of \<open>graphOptions.graphFormat\<close> (a combo of the
  graph options widget, whose items are not in this file), and \<open>a_thread\<close> is \<open>None\<close> while
  the attribute \<open>self.a_thread\<close> has never been assigned.
\<close>

record AnalysisPage =
  analyzed :: bool
  Loading :: LoadingWidget
  graphFormat :: string
  optionsTab_graph_enabled :: bool
  a_thread :: "AnalysisThread option"

definition AnalysisPage_init :: "string \<Rightarrow> string \<Rightarrow> AnalysisPage" where
  "AnalysisPage_init graph_format style =
     \<lparr>analyzed = False, Loading = LoadingWidget_init style, graphFormat = graph_format,
      optionsTab_graph_enabled = False, a_thread = None\<rparr>"

text \<open>
  An uncaught Python exception ends the handler; the page is then as the handler found it
  (both handlers below raise before they assign anything).
\<close>

subsection \<open>The pre-run check\<close>

definition column_file_check :: "AnalysisPage \<Rightarrow> bool" where
  "column_file_check p =
     (length (column1_files (Loading p)) = length (column2_files (Loading p)))"

definition file_check :: "AnalysisPage \<Rightarrow> bool" where
  "file_check p =
     (if column1_files (Loading p) = [] then False
      else if datasetType_currentText (datasetType (Loading p)) = ''Volume''
              \<and> annotationType_currentText (annotationType (Loading p)) \<noteq> ''None''
              \<and> (\<not> column_file_check p \<or> truthy (annotation_data (Loading p)))
      then False
      else if datasetType_currentText (datasetType (Loading p)) = ''Graph''
              \<and> graphFormat p = ''CSV''
              \<and> \<not> column_file_check p
      then False
      else True)"

subsection \<open>Starting an analysis\<close>

definition initialize_volume_analysis :: "AnalysisPage \<Rightarrow> AnalysisPage" where
  "initialize_volume_analysis p =
     p\<lparr>a_thread := Some
        \<lparr>thread_class = VolumeThread,
         thread_annotation_type = Some (annotationType_currentText (annotationType (Loading p))),
         thread_column1_files = column1_files (Loading p),
         thread_column2_files = column2_files (Loading p),
         thread_annotation_data = annotation_data (Loading p),
         button_lock_connected = False, selection_signal_connected = False,
         analysis_status_connected = False, started = False\<rparr>\<rparr>"

definition initialize_graph_analysis :: "AnalysisPage \<Rightarrow> AnalysisPage" where
  "initialize_graph_analysis p =
     p\<lparr>a_thread := Some
        \<lparr>thread_class = GraphThread,
         thread_annotation_type = None,
         thread_column1_files = column1_files (Loading p),
         thread_column2_files = column2_files (Loading p),
         thread_annotation_data = None,
         button_lock_connected = False, selection_signal_connected = False,
         analysis_status_connected = False, started = False\<rparr>\<rparr>"

text \<open>
  What a run request did when it returned: it showed the warning \<open>Load all files to run
  analysis.\<close>, or it connected and started \<open>self.a_thread\<close>.
\<close>

datatype run_result = LoadFilesWarning | ThreadStarted

definition run_analysis :: "AnalysisPage \<Rightarrow> py_error + (run_result \<times> AnalysisPage)" where
  "run_analysis p =
     (if analyzed p then Inr (LoadFilesWarning, p)
      else if \<not> file_check p then Inr (LoadFilesWarning, p)
      else (let p1 = (if datasetType_currentText (datasetType (Loading p)) = ''Volume''
                      then initialize_volume_analysis p
                      else if datasetType_currentText (datasetType (Loading p)) = ''Graph ''
                      then initialize_graph_analysis p
                      else p)
            in case a_thread p1 of
                 None \<Rightarrow> Inl (AttributeError ''a_thread'')
               | Some t \<Rightarrow>
                   Inr (ThreadStarted,
                        p1\<lparr>a_thread := Some (t\<lparr>button_lock_connected := True,
                                               selection_signal_connected := True,
                                               analysis_status_connected := True,
                                               started := True\<rparr>),
                           analyzed := True\<rparr>)))"

subsection \<open>File loading\<close>

text \<open>
  \<open>FileLoader.__init__\<close> builds its buttons and then evaluates \<open>self.cancel_load\<close> (line 659)
  as the callback of the cancel button. The class defines \<open>cancel_file_loading\<close> and no
  \<open>cancel_load\<close>, and \<open>QDialog\<close> has none, so the attribute lookup raises in both branches
  of the constructor and no dialog object is ever returned.
\<close>

record FileLoader =
  loader_column1_files :: "string list"
  loader_column2_files :: "string list"
  loader_graph_format :: string
  loader_annotation :: string

definition FileLoader_init :: "string \<Rightarrow> string \<Rightarrow> string \<Rightarrow> py_error + FileLoader" where
  "FileLoader_init dataset_type annotation graph_format = Inl (AttributeError ''cancel_load'')"

text \<open>
  What the file dialogs return to one call of \<open>load_files\<close>: the lists of
  \<open>helpers.load_volumes()\<close> and \<open>helpers.load_graphs(graph_format)\<close> (empty when the user
  cancels), and for the loader dialog the result of \<open>exec_()\<close> with the files it collected.
\<close>

record file_dialogs =
  load_volumes :: "string list"
  load_graphs :: "string list"
  loader_accepted :: bool
  loader_picked1 :: "string list"
  loader_picked2 :: "string list"

text \<open>Lines 129 to 137: the registry update once the dialogs have returned.\<close>

definition register_files :: "string list \<Rightarrow> string list \<Rightarrow> AnalysisPage \<Rightarrow> AnalysisPage" where
  "register_files c1files c2files p =
     (let p1 = (if analyzed p then p\<lparr>Loading := clear_files (Loading p), analyzed := False\<rparr> else p);
          p2 = (if c1files \<noteq> []
                then p1\<lparr>Loading := add_column1_files
                        ((Loading p1)\<lparr>column1_files := column1_files (Loading p1) @ c1files\<rparr>)\<rparr>
                else p1);
          p3 = (if c2files \<noteq> []
                then p2\<lparr>Loading := add_column2_files
                        ((Loading p2)\<lparr>column2_files := column2_files (Loading p2) @ c2files\<rparr>)\<rparr>
                else p2)
      in p3)"

definition load_files :: "file_dialogs \<Rightarrow> AnalysisPage \<Rightarrow> py_error + AnalysisPage" where
  "load_files dialogs p =
     (let dataset_type = datasetType_currentText (datasetType (Loading p));
          annotation = annotationType_currentText (annotationType (Loading p));
          graph_format = graphFormat p
      in if annotation = ''None'' \<and> dataset_type = ''Volume''
         then Inr (register_files (load_volumes dialogs) [] p)
         else if dataset_type = ''Graph'' \<and> graph_format \<noteq> ''CSV''
         then Inr (register_files (load_graphs dialogs) [] p)
         else (case FileLoader_init dataset_type annotation graph_format of
                 Inl e \<Rightarrow> Inl e
               | Inr loader \<Rightarrow>
                   (let c1 = loader_column1_files loader @ loader_picked1 dialogs;
                        c2 = loader_column2_files loader @ loader_picked2 dialogs
                    in if loader_accepted dialogs
                       then Inr (register_files c1 c2 p)
                       else Inr (register_files [] [] p))))"

subsection \<open>The table view and the signals of the mode inputs\<close>

definition update_table_view :: "AnalysisPage \<Rightarrow> AnalysisPage" where
  "update_table_view p =
     (if datasetType_currentText (datasetType (Loading p)) = ''Graph''
      then (if graphFormat p \<noteq> ''CSV''
            then p\<lparr>Loading := (Loading p)\<lparr>fileSheet := init_default (fileSheet (Loading p))\<rparr>,
                   optionsTab_graph_enabled := True\<rparr>
            else p\<lparr>Loading := (Loading p)\<lparr>fileSheet := init_csv (fileSheet (Loading p))\<rparr>,
                   optionsTab_graph_enabled := True\<rparr>)
      else if annotationType_currentText (annotationType (Loading p)) \<noteq> ''None''
      then p\<lparr>Loading := (Loading p)\<lparr>fileSheet := init_annotation (fileSheet (Loading p))\<rparr>,
             optionsTab_graph_enabled := False\<rparr>
      else p\<lparr>optionsTab_graph_enabled := False\<rparr>)"

text \<open>
  \<open>datasetType.currentIndexChanged\<close> is connected to \<open>file_type_options\<close> when the combo is
  built (line 337) and to \<open>update_table_view\<close> afterwards (line 93);
  \<open>annotationType.currentIndexChanged\<close> to \<open>annotation_options\<close> (line 343) and then to
  \<open>update_JSON\<close> (line 346). Qt calls the slots of a signal in the order of connection.
  \<open>QtO.new_combo\<close> is not in this file; its \<open>connect\<close> argument is taken to be connected to
  \<open>currentIndexChanged\<close>, the signal the page connects its other slots to.
\<close>

definition datasetType_currentIndexChanged :: "DatasetType \<Rightarrow> AnalysisPage \<Rightarrow> AnalysisPage" where
  "datasetType_currentIndexChanged dt p =
     update_table_view (p\<lparr>Loading := file_type_options ((Loading p)\<lparr>datasetType := dt\<rparr>)\<rparr>)"

definition annotationType_currentIndexChanged :: "AnnotationType \<Rightarrow> AnalysisPage \<Rightarrow> AnalysisPage" where
  "annotationType_currentIndexChanged a p =
     p\<lparr>Loading := update_JSON (annotation_options ((Loading p)\<lparr>annotationType := a\<rparr>))\<rparr>"

section \<open>The schema of the spec\<close>

text \<open>
  This definition follows the words of the spec, not the code: the number of columns its
  table gives each mode. Volume without annotations has 2 columns, Volume with ID or RGB
  annotations 4, Graph with the CSV format 3, Graph with another format 2; the annotation
  type is not read under Graph and the graph format is not read under Volume.
\<close>

fun schema_column_count :: "DatasetType \<Rightarrow> AnnotationType \<Rightarrow> string \<Rightarrow> nat" where
  "schema_column_count Volume AnnNone graph_format = 2"
| "schema_column_count Volume AnnID graph_format = 4"
| "schema_column_count Volume AnnRGB graph_format = 4"
| "schema_column_count Graph annotation graph_format = (if graph_format = ''CSV'' then 3 else 2)"

section \<open>Example pages\<close>

text \<open>
  Concrete states used to evaluate the operations. \<open>annotated_widget\<close> is the loading
  widget in the mode Volume with ID annotations, two volumes and two annotation files
  loaded, and the given annotation data. \<open>two_regions\<close> is a catalog of two regions with
  one colour triple each; \<open>rgb\<close> writes a colour triple as the array of its three numbers.
\<close>

definition rgb :: "int \<Rightarrow> int \<Rightarrow> int \<Rightarrow> json" where
  "rgb r g b = JArray [JNumber r, JNumber g, JNumber b]"

definition two_regions :: catalog where
  "two_regions =
     [(''cortex'', JObject [(''colors'', JArray [rgb 255 0 0])]),
      (''thalamus'', JObject [(''colors'', JArray [rgb 0 255 0])])]"

definition annotated_widget :: "catalog option \<Rightarrow> LoadingWidget" where
  "annotated_widget data =
     (LoadingWidget_init [])\<lparr>annotationType := AnnID,
        column1_files := [''/data/v1.nii'', ''/data/v2.nii''],
        column2_files := [''/data/a1.nii'', ''/data/a2.nii''],
        annotation_data := data,
        loadAnnotationFile_visible := True,
        fileSheet := (init_annotation FileSheet_init)\<lparr>rowCount := 2\<rparr>\<rparr>"

text \<open>
  \<open>annotated_page\<close> is a fresh page around \<open>annotated_widget\<close>; \<open>short_annotated_page\<close> is
  the same with one annotation file missing. \<open>graph_page\<close> is a page in the mode Graph with
  the given graph format and files.
\<close>

definition annotated_page :: "catalog option \<Rightarrow> AnalysisPage" where
  "annotated_page data = (AnalysisPage_init ''GraphML'' [])\<lparr>Loading := annotated_widget data\<rparr>"

definition short_annotated_page :: AnalysisPage where
  "short_annotated_page =
     (AnalysisPage_init ''GraphML'' [])
       \<lparr>Loading := (annotated_widget None)\<lparr>column2_files := [''/data/a1.nii'']\<rparr>\<rparr>"

definition graph_page :: "string \<Rightarrow> string list \<Rightarrow> string list \<Rightarrow> AnalysisPage" where
  "graph_page graph_format c1 c2 =
     (AnalysisPage_init graph_format [])
       \<lparr>optionsTab_graph_enabled := True,
        Loading := (LoadingWidget_init [])
          \<lparr>datasetType := Graph, annotationType_disabled := True,
           column1_files := c1, column2_files := c2,
           fileSheet := (if graph_format = ''CSV'' then init_csv FileSheet_init
                         else init_default FileSheet_init)
                        \<lparr>rowCount := max (length c1) (length c2)\<rparr>\<rparr>\<rparr>"

text \<open>
  \<open>volume_page\<close> is a page in the mode Volume without annotations and with the given
  volumes loaded; \<open>analyzed_annotated_page\<close> is the state reached from it by running the
  analysis of one volume and then setting the annotation type to ID.
\<close>

definition volume_page :: "string list \<Rightarrow> AnalysisPage" where
  "volume_page c1 =
     (AnalysisPage_init ''GraphML'' [])
       \<lparr>Loading := (LoadingWidget_init [])
          \<lparr>column1_files := c1,
           fileSheet := FileSheet_init\<lparr>rowCount := length c1\<rparr>\<rparr>\<rparr>"

definition analyzed_annotated_page :: AnalysisPage where
  "analyzed_annotated_page =
     annotationType_currentIndexChanged AnnID
       (case run_analysis (volume_page [''/data/v1.nii'']) of
          Inr (r, p) \<Rightarrow> p
        | Inl e \<Rightarrow> volume_page [''/data/v1.nii''])"

text \<open>The dialogs of a load request in which the user picks one file everywhere.\<close>

definition one_file_dialogs :: file_dialogs where
  "one_file_dialogs =
     \<lparr>load_volumes = [''/data/new.nii''], load_graphs = [''/data/new.graphml''],
      loader_accepted = True, loader_picked1 = [''/data/new.nii''],
      loader_picked2 = [''/data/new_annotation.nii'']\<rparr>"

text \<open>
  \<open>rgb_widget\<close> is the annotated widget with the annotation type RGB and the catalog of
  two regions loaded; \<open>clashing_regions\<close> is a catalog in which two regions share the
  colour (255, 0, 0).
\<close>

definition rgb_widget :: LoadingWidget where
  "rgb_widget = (annotated_widget (Some two_regions))\<lparr>annotationType := AnnRGB\<rparr>"

definition clashing_regions :: catalog where
  "clashing_regions =
     [(''cortex'', JObject [(''colors'', JArray [rgb 255 0 0])]),
      (''thalamus'', JObject [(''colors'', JArray [rgb 0 0 255, rgb 255 0 0])])]"

section \<open>Facts about the primitives\<close>

lemma setItem_rowCount: "rowCount (setItem r c txt sh) = rowCount sh"
  by (simp add: setItem_def)

lemma setItem_columnCount: "columnCount (setItem r c txt sh) = columnCount sh"
  by (simp add: setItem_def)

lemma setItem_item:
  "item (setItem r c txt sh) i j =
     (if i = r \<and> j = c \<and> r < rowCount sh \<and> c < columnCount sh then Some txt else item sh i j)"
  by (simp add: setItem_def)

text \<open>A loop that writes one text into one column of the rows \<open>rs\<close>.\<close>

lemma fold_setItem_rowCount:
  "rowCount (fold (\<lambda>i. setItem i c txt) rs sh) = rowCount sh"
  by (induction rs arbitrary: sh) (simp_all add: setItem_rowCount)

lemma fold_setItem_columnCount:
  "columnCount (fold (\<lambda>i. setItem i c txt) rs sh) = columnCount sh"
  by (induction rs arbitrary: sh) (simp_all add: setItem_columnCount)

lemma fold_setItem_item:
  "item (fold (\<lambda>i. setItem i c txt) rs sh) i j =
     (if i \<in> set rs \<and> j = c \<and> i < rowCount sh \<and> c < columnCount sh
      then Some txt else item sh i j)"
proof (induction rs arbitrary: sh)
  case Nil
  show ?case by simp
next
  case (Cons r rs)
  have "item (fold (\<lambda>i. setItem i c txt) (r # rs) sh) i j =
        item (fold (\<lambda>i. setItem i c txt) rs (setItem r c txt sh)) i j"
    by simp
  also have "\<dots> =
      (if i \<in> set rs \<and> j = c \<and> i < rowCount sh \<and> c < columnCount sh
       then Some txt else item (setItem r c txt sh) i j)"
    by (simp add: Cons.IH setItem_rowCount setItem_columnCount)
  finally show ?case
    by (auto simp: setItem_item)
qed

subsection \<open>What \<open>update_queue\<close> leaves alone\<close>

lemma update_queue_column1_files: "column1_files (update_queue w) = column1_files w"
  by (simp add: update_queue_def Let_def)

lemma update_queue_column2_files: "column2_files (update_queue w) = column2_files w"
  by (simp add: update_queue_def Let_def)

lemma update_queue_annotation_data: "annotation_data (update_queue w) = annotation_data w"
  by (simp add: update_queue_def Let_def)

lemma update_queue_annotationType: "annotationType (update_queue w) = annotationType w"
  by (simp add: update_queue_def Let_def)

lemma update_queue_datasetType: "datasetType (update_queue w) = datasetType w"
  by (simp add: update_queue_def Let_def)

lemma update_queue_columnCount:
  "columnCount (fileSheet (update_queue w)) = columnCount (fileSheet w)"
  by (simp add: update_queue_def Let_def fold_setItem_columnCount)

lemma update_queue_rowCount:
  "rowCount (fileSheet (update_queue w)) = rowCount (fileSheet w)"
  by (simp add: update_queue_def Let_def fold_setItem_rowCount)

text \<open>The status cell of a row after \<open>update_queue\<close>.\<close>

lemma update_queue_status_item:
  assumes "0 < columnCount (fileSheet w)" and "r < rowCount (fileSheet w)"
  shows "item (fileSheet (update_queue w)) r (columnCount (fileSheet w) - 1) = Some ''Queued...''"
proof (cases "columnCount (fileSheet w) = 4")
  case True
  then show ?thesis
    using assms
    by (simp add: update_queue_def Let_def fold_setItem_item fold_setItem_rowCount
        fold_setItem_columnCount)
next
  case False
  then show ?thesis
    using assms
    by (simp add: update_queue_def Let_def fold_setItem_item fold_setItem_rowCount
        fold_setItem_columnCount)
qed

text \<open>The progress cell of a row after \<open>update_queue\<close> on a sheet of four columns.\<close>

lemma update_queue_progress_item:
  assumes "columnCount (fileSheet w) = 4" and "r < rowCount (fileSheet w)"
  shows "item (fileSheet (update_queue w)) r 2 = Some (regions_status (annotation_data w))"
  using assms
  by (simp add: update_queue_def Let_def fold_setItem_item fold_setItem_rowCount
      fold_setItem_columnCount)

section \<open>The queue\<close>

text \<open>
  C9 (as amended). After \<open>update_queue\<close> the status cell (the last column) of every row
  holds the queued marker \<open>Queued...\<close>. When the sheet has four columns, the progress cell
  (column 2) of every row holds \<open>0/N\<close>, with \<open>N\<close> the number of regions, when a catalog
  with at least one region is loaded, and the prompt \<open>Load JSON!\<close> when no catalog is
  loaded or the loaded catalog has no region.
\<close>

theorem update_queue_marks_every_row:
  assumes "0 < columnCount (fileSheet w)" and "r < rowCount (fileSheet w)"
  shows "item (fileSheet (update_queue w)) r (columnCount (fileSheet w) - 1) = Some ''Queued...''
    \<and> (columnCount (fileSheet w) = 4 \<longrightarrow>
         (\<forall>d. annotation_data w = Some d \<and> d \<noteq> [] \<longrightarrow>
            item (fileSheet (update_queue w)) r 2 = Some (''0/'' @ str_nat (dict_len d)))
       \<and> (annotation_data w = None \<or> annotation_data w = Some [] \<longrightarrow>
            item (fileSheet (update_queue w)) r 2 = Some ''Load JSON!''))"
proof -
  have status: "item (fileSheet (update_queue w)) r (columnCount (fileSheet w) - 1) = Some ''Queued...''"
    using assms by (rule update_queue_status_item)
  have progress: "item (fileSheet (update_queue w)) r 2 = Some (regions_status (annotation_data w))"
    if "columnCount (fileSheet w) = 4"
    using that assms(2) by (rule update_queue_progress_item)
  have loaded: "regions_status (Some d) = ''0/'' @ str_nat (dict_len d)" if "d \<noteq> []" for d
    using that by (simp add: dict_len_def dict_keys_def)
  have prompt: "regions_status None = ''Load JSON!''" "regions_status (Some []) = ''Load JSON!''"
    by simp_all
  show ?thesis
    using status progress loaded prompt by auto
qed

text \<open>
  The theorem at row 1 of the annotated example with a catalog of two regions: the status
  is \<open>Queued...\<close> and the progress is \<open>0/2\<close>.
\<close>

theorem update_queue_marks_every_row_witness:
  "item (fileSheet (update_queue (annotated_widget (Some two_regions)))) 1 3 = Some ''Queued...''
   \<and> item (fileSheet (update_queue (annotated_widget (Some two_regions)))) 1 2 = Some ''0/2''"
proof -
  have cols: "columnCount (fileSheet (annotated_widget (Some two_regions))) = 4"
    by (simp add: annotated_widget_def init_annotation_def set_format_def)
  have rows: "rowCount (fileSheet (annotated_widget (Some two_regions))) = 2"
    by (simp add: annotated_widget_def)
  have data: "annotation_data (annotated_widget (Some two_regions)) = Some two_regions"
    by (simp add: annotated_widget_def)
  have h1: "0 < columnCount (fileSheet (annotated_widget (Some two_regions)))"
    by (simp add: cols)
  have h2: "1 < rowCount (fileSheet (annotated_widget (Some two_regions)))"
    by (simp add: rows)
  have n: "str_nat (dict_len two_regions) = ''2''"
    by code_simp
  have ne: "two_regions \<noteq> []"
    by (simp add: two_regions_def)
  show ?thesis
    using update_queue_marks_every_row [OF h1 h2] cols data n ne by simp
qed

text \<open>
  The claim as written fails for a loaded catalog without regions (the document
  \<open>{"VesselVio Annotations": {}}\<close>): the progress cell is the prompt, not \<open>0/0\<close>.
\<close>

theorem update_queue_empty_catalog_counterexample:
  "annotation_data (annotated_widget (Some [])) = Some []
   \<and> item (fileSheet (update_queue (annotated_widget (Some [])))) 0 2 = Some ''Load JSON!''
   \<and> item (fileSheet (update_queue (annotated_widget (Some [])))) 0 2
       \<noteq> Some (''0/'' @ str_nat (dict_len ([] :: catalog)))"
proof -
  have cols: "columnCount (fileSheet (annotated_widget (Some []))) = 4"
    by (simp add: annotated_widget_def init_annotation_def set_format_def)
  have rows: "0 < rowCount (fileSheet (annotated_widget (Some [])))"
    by (simp add: annotated_widget_def)
  have data: "annotation_data (annotated_widget (Some [])) = Some []"
    by (simp add: annotated_widget_def)
  have "item (fileSheet (update_queue (annotated_widget (Some [])))) 0 2 = Some ''Load JSON!''"
    using update_queue_progress_item [OF cols rows] data by simp
  then show ?thesis
    using data by simp
qed

section \<open>The pre-run check\<close>

lemma datasetType_currentText_eq:
  "(datasetType_currentText d = ''Volume'') = (d = Volume)"
  "(datasetType_currentText d = ''Graph'') = (d = Graph)"
  "datasetType_currentText d \<noteq> ''Graph ''"
  by (cases d; simp)+

lemma annotationType_currentText_eq:
  "(annotationType_currentText a = ''None'') = (a = AnnNone)"
  "(annotationType_currentText a = ''RGB'') = (a = AnnRGB)"
  by (cases a; simp)+

lemma annotationType_currentIndex_eq:
  "(annotationType_currentIndex a = 0) = (a = AnnNone)"
  by (cases a) simp_all

text \<open>
  C5. \<open>file_check\<close> returns false whenever \<open>column1_files\<close> is empty, and, in the modes
  that need a second column of files (Volume with an annotation type other than None,
  Graph with the CSV format), whenever the two columns differ in length.
\<close>

theorem file_check_needs_files_and_even_columns:
  "(column1_files (Loading p) = [] \<longrightarrow> file_check p = False)
   \<and> ((datasetType (Loading p) = Volume \<and> annotationType (Loading p) \<noteq> AnnNone
        \<or> datasetType (Loading p) = Graph \<and> graphFormat p = ''CSV'')
       \<and> length (column1_files (Loading p)) \<noteq> length (column2_files (Loading p))
       \<longrightarrow> file_check p = False)"
proof -
  have empty: "file_check p = False" if "column1_files (Loading p) = []"
    using that by (simp add: file_check_def)
  have volume: "file_check p = False"
    if "datasetType (Loading p) = Volume" "annotationType (Loading p) \<noteq> AnnNone"
       "length (column1_files (Loading p)) \<noteq> length (column2_files (Loading p))"
    using that
    by (simp add: file_check_def column_file_check_def annotationType_currentText_eq)
  have csv: "file_check p = False"
    if "datasetType (Loading p) = Graph" "graphFormat p = ''CSV''"
       "length (column1_files (Loading p)) \<noteq> length (column2_files (Loading p))"
    using that
    by (simp add: file_check_def column_file_check_def)
  show ?thesis
    using empty volume csv by blast
qed

text \<open>
  The theorem on a fresh page (no files), on the annotated page with one annotation file
  missing, and on a CSV graph page with two vertex files and one edge file.
\<close>

theorem file_check_needs_files_and_even_columns_witness:
  "file_check (AnalysisPage_init ''CSV'' []) = False
   \<and> file_check short_annotated_page = False
   \<and> file_check (graph_page ''CSV'' [''/g/v1.csv'', ''/g/v2.csv''] [''/g/e1.csv'']) = False"
proof -
  have a: "column1_files (Loading (AnalysisPage_init ''CSV'' [])) = []"
    by (simp add: AnalysisPage_init_def LoadingWidget_init_def)
  have b: "datasetType (Loading short_annotated_page) = Volume
           \<and> annotationType (Loading short_annotated_page) \<noteq> AnnNone"
    by (simp add: short_annotated_page_def annotated_widget_def LoadingWidget_init_def)
  have b': "length (column1_files (Loading short_annotated_page))
            \<noteq> length (column2_files (Loading short_annotated_page))"
    by (simp add: short_annotated_page_def annotated_widget_def)
  have c: "datasetType (Loading (graph_page ''CSV'' [''/g/v1.csv'', ''/g/v2.csv''] [''/g/e1.csv''])) = Graph
           \<and> graphFormat (graph_page ''CSV'' [''/g/v1.csv'', ''/g/v2.csv''] [''/g/e1.csv'']) = ''CSV''"
    by (simp add: graph_page_def AnalysisPage_init_def)
  have c': "length (column1_files (Loading (graph_page ''CSV'' [''/g/v1.csv'', ''/g/v2.csv''] [''/g/e1.csv''])))
            \<noteq> length (column2_files (Loading (graph_page ''CSV'' [''/g/v1.csv'', ''/g/v2.csv''] [''/g/e1.csv''])))"
    by (simp add: graph_page_def)
  show ?thesis
    using file_check_needs_files_and_even_columns [of "AnalysisPage_init ''CSV'' []"]
      file_check_needs_files_and_even_columns [of short_annotated_page]
      file_check_needs_files_and_even_columns
        [of "graph_page ''CSV'' [''/g/v1.csv'', ''/g/v2.csv''] [''/g/e1.csv'']"]
      a b b' c c'
    by blast
qed

text \<open>
  C1 (the code departs from the claim). In the modes that need a catalog (Volume with an
  annotation type other than None) \<open>file_check\<close> is true exactly when files are loaded, the
  columns have the same length and \<^emph>\<open>no\<close> catalog with regions is loaded: line 250 tests
  \<open>self.Loading.annotation_data\<close> where the docstring, the prompt \<open>Load JSON!\<close> and the
  claim need its negation.
\<close>

theorem file_check_annotated_volume:
  assumes "datasetType (Loading p) = Volume" and "annotationType (Loading p) \<noteq> AnnNone"
  shows "file_check p =
          (column1_files (Loading p) \<noteq> []
           \<and> length (column1_files (Loading p)) = length (column2_files (Loading p))
           \<and> \<not> truthy (annotation_data (Loading p)))"
  using assms
  by (auto simp: file_check_def column_file_check_def annotationType_currentText_eq)

text \<open>
  On the annotated page (two volumes, two annotation files) the check fails with the
  catalog of two regions loaded and passes with no catalog.
\<close>

theorem file_check_annotated_volume_witness:
  "file_check (annotated_page (Some two_regions)) = False
   \<and> file_check (annotated_page None) = True"
proof -
  have m: "datasetType (Loading (annotated_page d)) = Volume" for d
    by (simp add: annotated_page_def annotated_widget_def LoadingWidget_init_def)
  have a: "annotationType (Loading (annotated_page d)) \<noteq> AnnNone" for d
    by (simp add: annotated_page_def annotated_widget_def)
  have f: "column1_files (Loading (annotated_page d)) = [''/data/v1.nii'', ''/data/v2.nii'']
           \<and> column2_files (Loading (annotated_page d)) = [''/data/a1.nii'', ''/data/a2.nii'']
           \<and> annotation_data (Loading (annotated_page d)) = d" for d
    by (simp add: annotated_page_def annotated_widget_def)
  show ?thesis
    using file_check_annotated_volume [OF m a, of "Some two_regions"]
      file_check_annotated_volume [OF m a, of None] f
    by (simp add: two_regions_def)
qed

section \<open>Run requests\<close>

text \<open>
  For a Volume batch that passes the check and has not been analyzed, the run request
  builds a volume thread from the loaded files, connects its three signals and starts it.
\<close>

lemma run_analysis_volume:
  assumes "datasetType (Loading p) = Volume" and "\<not> analyzed p" and "file_check p"
  shows "run_analysis p =
     Inr (ThreadStarted,
          p\<lparr>a_thread := Some
               \<lparr>thread_class = VolumeThread,
                thread_annotation_type = Some (annotationType_currentText (annotationType (Loading p))),
                thread_column1_files = column1_files (Loading p),
                thread_column2_files = column2_files (Loading p),
                thread_annotation_data = annotation_data (Loading p),
                button_lock_connected = True, selection_signal_connected = True,
                analysis_status_connected = True, started = True\<rparr>,
             analyzed := True\<rparr>)"
  using assms
  by (simp add: run_analysis_def initialize_volume_analysis_def)

text \<open>
  C2 (the code departs from the claim). Line 168 compares the dataset type with
  \<open>"Graph "\<close> (a trailing space), a text the combo never holds, so for a Graph batch that
  passes the check \<open>initialize_graph_analysis\<close> is never called: the request raises
  \<open>AttributeError\<close> on \<open>self.a_thread\<close> when no thread was created before, and otherwise
  connects and starts the thread left by an earlier run again.
\<close>

theorem run_analysis_graph_builds_no_thread:
  assumes "datasetType (Loading p) = Graph" and "\<not> analyzed p" and "file_check p"
  shows "run_analysis p =
     (case a_thread p of
        None \<Rightarrow> Inl (AttributeError ''a_thread'')
      | Some t \<Rightarrow>
          Inr (ThreadStarted,
               p\<lparr>a_thread := Some (t\<lparr>button_lock_connected := True,
                                      selection_signal_connected := True,
                                      analysis_status_connected := True,
                                      started := True\<rparr>),
                  analyzed := True\<rparr>))"
  using assms
  by (simp add: run_analysis_def)

text \<open>A fresh Graph page with one GraphML file loaded: the run request raises.\<close>

theorem run_analysis_graph_builds_no_thread_witness:
  "file_check (graph_page ''GraphML'' [''/data/g.graphml''] []) = True
   \<and> run_analysis (graph_page ''GraphML'' [''/data/g.graphml''] [])
       = Inl (AttributeError ''a_thread'')"
proof -
  let ?p = "graph_page ''GraphML'' [''/data/g.graphml''] []"
  have g: "datasetType (Loading ?p) = Graph"
    by (simp add: graph_page_def)
  have n: "\<not> analyzed ?p"
    by (simp add: graph_page_def AnalysisPage_init_def)
  have c: "file_check ?p"
    by (simp add: file_check_def graph_page_def AnalysisPage_init_def)
  have t: "a_thread ?p = None"
    by (simp add: graph_page_def AnalysisPage_init_def)
  show ?thesis
    using run_analysis_graph_builds_no_thread [OF g n c] c t by simp
qed

text \<open>Once \<open>analyzed\<close> is set, a run request only shows the warning and changes nothing.\<close>

lemma run_analysis_analyzed:
  "analyzed p \<Longrightarrow> run_analysis p = Inr (LoadFilesWarning, p)"
  by (simp add: run_analysis_def)

lemma run_analysis_sets_analyzed:
  "run_analysis p = Inr (ThreadStarted, p') \<Longrightarrow> analyzed p'"
  by (auto simp: run_analysis_def Let_def split: if_splits option.splits)

section \<open>Removing a row\<close>

lemma length_list_del: "index < length xs \<Longrightarrow> length (list_del index xs) = length xs - 1"
  by (simp add: list_del_def)

lemma nth_list_del:
  "index < length xs \<Longrightarrow> k < length xs - 1 \<Longrightarrow>
   list_del index xs ! k = (if k < index then xs ! k else xs ! Suc k)"
  by (auto simp: list_del_def nth_append)

text \<open>
  On a sheet of three columns (Graph with CSV files) the selected row is deleted from both
  columns, and the later entries move down by one.
\<close>

lemma remove_file_three_columns:
  assumes "columnCount (fileSheet w) = 3"
    and "index < length (column1_files w)" and "index < length (column2_files w)"
  shows "column1_files (remove_file (Some index) w) = list_del index (column1_files w)"
    and "column2_files (remove_file (Some index) w) = list_del index (column2_files w)"
  using assms by (simp_all add: remove_file_def Let_def)

text \<open>On a sheet of two columns only the first column has files to delete.\<close>

lemma remove_file_two_columns:
  assumes "columnCount (fileSheet w) = 2" and "index < length (column1_files w)"
  shows "column1_files (remove_file (Some index) w) = list_del index (column1_files w)"
    and "column2_files (remove_file (Some index) w) = column2_files w"
  using assms by (simp_all add: remove_file_def Let_def)

text \<open>Without a selection, or with a row beyond the table and both columns, nothing changes.\<close>

lemma remove_file_no_selection: "remove_file None w = w"
  by (simp add: remove_file_def)

lemma remove_file_out_of_range:
  assumes "rowCount (fileSheet w) \<le> index" and "length (column1_files w) \<le> index"
    and "length (column2_files w) \<le> index"
  shows "remove_file (Some index) w = w"
  using assms by (simp add: remove_file_def Let_def removeRow_def)

text \<open>
  C3 (the code departs from the claim). \<open>remove_file\<close> deletes from \<open>column2_files\<close> only
  when the sheet has exactly three columns (line 432). Under the annotation schema the
  sheet has four, so the annotation file of the removed row stays in \<open>column2_files\<close>
  while the row leaves the table and \<open>column1_files\<close>.
\<close>

theorem remove_file_four_columns_keeps_column2:
  assumes "columnCount (fileSheet w) = 4"
  shows "column2_files (remove_file (Some index) w) = column2_files w"
  using assms by (simp add: remove_file_def Let_def)

text \<open>
  Removing row 0 of the annotated example (two volumes, two annotation files): one volume
  is left, both annotation files are.
\<close>

theorem remove_file_four_columns_keeps_column2_witness:
  "column1_files (remove_file (Some 0) (annotated_widget None)) = [''/data/v2.nii'']
   \<and> column2_files (remove_file (Some 0) (annotated_widget None))
       = [''/data/a1.nii'', ''/data/a2.nii'']
   \<and> rowCount (fileSheet (remove_file (Some 0) (annotated_widget None))) = 1"
proof -
  have cols: "columnCount (fileSheet (annotated_widget None)) = 4"
    by (simp add: annotated_widget_def init_annotation_def set_format_def)
  have c2: "column2_files (annotated_widget None) = [''/data/a1.nii'', ''/data/a2.nii'']"
    by (simp add: annotated_widget_def)
  have c1: "column1_files (remove_file (Some 0) (annotated_widget None)) = [''/data/v2.nii'']"
    by (simp add: remove_file_def Let_def annotated_widget_def list_del_def)
  have rows: "rowCount (fileSheet (remove_file (Some 0) (annotated_widget None))) = 1"
    by (simp add: remove_file_def Let_def annotated_widget_def removeRow_def)
  show ?thesis
    using remove_file_four_columns_keeps_column2 [OF cols, of 0] c1 c2 rows by simp
qed

section \<open>Loading files\<close>

lemma insertRow_columnCount: "columnCount (insertRow r sh) = columnCount sh"
  by (simp add: insertRow_def)

lemma add_files_columnCount: "columnCount (add_files column i files sh) = columnCount sh"
  by (induction column i files sh rule: add_files.induct)
     (simp_all add: Let_def setItem_columnCount insertRow_columnCount)

text \<open>The loop adds a row for every file beyond the rows the table already has.\<close>

lemma add_files_rowCount:
  "i \<le> rowCount sh \<Longrightarrow>
   rowCount (add_files column i files sh) = max (rowCount sh) (i + length files)"
proof (induction column i files sh rule: add_files.induct)
  case (1 column i sh)
  then show ?case by simp
next
  case (2 column i f fs sh)
  let ?sh1 = "if i + 1 > rowCount sh then insertRow (rowCount sh) sh else sh"
  have rows: "rowCount ?sh1 = max (rowCount sh) (i + 1)"
    using "2.prems" by (simp add: insertRow_def)
  have "rowCount (add_files column (i + 1) fs (setItem i column (basename f) ?sh1))
        = max (rowCount (setItem i column (basename f) ?sh1)) (i + 1 + length fs)"
    using "2.prems" by (intro "2.IH") (simp_all add: setItem_rowCount insertRow_def)
  then show ?case
    using rows by (simp add: Let_def setItem_rowCount)
qed

lemma add_column1_files_fields:
  "column1_files (add_column1_files w) = column1_files w"
  "column2_files (add_column1_files w) = column2_files w"
  "annotation_data (add_column1_files w) = annotation_data w"
  "annotationType (add_column1_files w) = annotationType w"
  "datasetType (add_column1_files w) = datasetType w"
  by (simp_all add: add_column1_files_def update_queue_column1_files update_queue_column2_files
      update_queue_annotation_data update_queue_annotationType update_queue_datasetType)

lemma add_column2_files_fields:
  "column1_files (add_column2_files w) = column1_files w"
  "column2_files (add_column2_files w) = column2_files w"
  "annotation_data (add_column2_files w) = annotation_data w"
  "annotationType (add_column2_files w) = annotationType w"
  "datasetType (add_column2_files w) = datasetType w"
  by (simp_all add: add_column2_files_def update_queue_column1_files update_queue_column2_files
      update_queue_annotation_data update_queue_annotationType update_queue_datasetType)

lemma add_column1_files_columnCount:
  "columnCount (fileSheet (add_column1_files w)) = columnCount (fileSheet w)"
  by (simp add: add_column1_files_def update_queue_columnCount add_files_columnCount)

lemma add_column1_files_rowCount:
  "rowCount (fileSheet (add_column1_files w)) = max (rowCount (fileSheet w)) (length (column1_files w))"
  by (simp add: add_column1_files_def update_queue_rowCount add_files_rowCount)

text \<open>
  The registry update of \<open>load_files\<close> on a page whose analysis has run, when only files
  for the first column were picked: the old registry and rows are dropped, the registry
  then holds the picked files alone, and the flag is reset.
\<close>

lemma register_files_after_analysis:
  assumes "analyzed p"
  shows "column1_files (Loading (register_files c1files [] p)) = c1files"
    and "column2_files (Loading (register_files c1files [] p)) = []"
    and "rowCount (fileSheet (Loading (register_files c1files [] p))) = length c1files"
    and "\<not> analyzed (register_files c1files [] p)"
  using assms
  by (simp_all add: register_files_def Let_def clear_files_def clearRows_def
      add_column1_files_fields add_column1_files_rowCount)

lemma load_files_volumes:
  assumes "datasetType (Loading p) = Volume" and "annotationType (Loading p) = AnnNone"
  shows "load_files dialogs p = Inr (register_files (load_volumes dialogs) [] p)"
  using assms by (simp add: load_files_def)

lemma load_files_graphs:
  assumes "datasetType (Loading p) = Graph" and "graphFormat p \<noteq> ''CSV''"
  shows "load_files dialogs p = Inr (register_files (load_graphs dialogs) [] p)"
  using assms by (auto simp: load_files_def annotationType_currentText_eq)

text \<open>
  A load request after an analysis in a mode with one column of files (Volume without
  annotations, Graph with a format other than CSV): the request returns, the flag is
  reset, and the registry and the table hold the picked files alone.
\<close>

lemma load_files_after_analysis:
  assumes "analyzed p"
    and "datasetType (Loading p) = Volume \<and> annotationType (Loading p) = AnnNone
         \<or> datasetType (Loading p) = Graph \<and> graphFormat p \<noteq> ''CSV''"
  shows "\<exists>p'. load_files dialogs p = Inr p'
           \<and> \<not> analyzed p'
           \<and> column1_files (Loading p')
               = (if datasetType (Loading p) = Volume then load_volumes dialogs
                  else load_graphs dialogs)
           \<and> column2_files (Loading p') = []
           \<and> rowCount (fileSheet (Loading p')) = length (column1_files (Loading p'))"
proof (cases "datasetType (Loading p)")
  case Volume
  then have "load_files dialogs p = Inr (register_files (load_volumes dialogs) [] p)"
    using assms(2) by (simp add: load_files_volumes)
  then show ?thesis
    using Volume register_files_after_analysis [OF assms(1), of "load_volumes dialogs"]
    by simp
next
  case Graph
  then have "load_files dialogs p = Inr (register_files (load_graphs dialogs) [] p)"
    using assms(2) by (simp add: load_files_graphs)
  then show ?thesis
    using Graph register_files_after_analysis [OF assms(1), of "load_graphs dialogs"]
    by simp
qed

section \<open>Mode changes\<close>

lemma clear_files_fields:
  "column1_files (clear_files w) = []"
  "column2_files (clear_files w) = []"
  "rowCount (fileSheet (clear_files w)) = 0"
  "columnCount (fileSheet (clear_files w)) = columnCount (fileSheet w)"
  "annotationType (clear_files w) = annotationType w"
  "datasetType (clear_files w) = datasetType w"
  by (simp_all add: clear_files_def clearRows_def)

lemma file_type_options_fields:
  "column1_files (file_type_options w) = []"
  "column2_files (file_type_options w) = []"
  "annotationType (file_type_options w) = annotationType w"
  "datasetType (file_type_options w) = datasetType w"
  by (simp_all add: file_type_options_def Let_def clear_files_fields)

lemma file_type_options_columnCount:
  "columnCount (fileSheet (file_type_options w)) =
     (if datasetType w = Graph then columnCount (fileSheet w) else 2)"
  by (simp add: file_type_options_def Let_def clear_files_fields datasetType_currentText_eq
      init_default_def set_format_def)

lemma annotation_options_fields:
  "column1_files (annotation_options w) = column1_files w"
  "column2_files (annotation_options w) = (if annotationType w = AnnNone then [] else column2_files w)"
  "annotationType (annotation_options w) = annotationType w"
  "datasetType (annotation_options w) = datasetType w"
  by (simp_all add: annotation_options_def Let_def add_column1_files_fields
      annotationType_currentIndex_eq)

lemma annotation_options_columnCount:
  "columnCount (fileSheet (annotation_options w)) = (if annotationType w = AnnNone then 2 else 4)"
  by (simp add: annotation_options_def Let_def add_column1_files_columnCount
      annotationType_currentIndex_eq init_default_def init_annotation_def set_format_def)

lemma update_JSON_fields:
  "column1_files (update_JSON w) = column1_files w"
  "column2_files (update_JSON w) = column2_files w"
  "fileSheet (update_JSON w) = fileSheet w"
  "annotationType (update_JSON w) = annotationType w"
  "datasetType (update_JSON w) = datasetType w"
  by (simp_all add: update_JSON_def)

lemma update_table_view_fields:
  "column1_files (Loading (update_table_view p)) = column1_files (Loading p)"
  "column2_files (Loading (update_table_view p)) = column2_files (Loading p)"
  "annotationType (Loading (update_table_view p)) = annotationType (Loading p)"
  "datasetType (Loading (update_table_view p)) = datasetType (Loading p)"
  "graphFormat (update_table_view p) = graphFormat p"
  "analyzed (update_table_view p) = analyzed p"
  by (simp_all add: update_table_view_def)

lemma update_table_view_columnCount:
  "columnCount (fileSheet (Loading (update_table_view p))) =
     (if datasetType (Loading p) = Graph then (if graphFormat p = ''CSV'' then 3 else 2)
      else if annotationType (Loading p) = AnnNone then columnCount (fileSheet (Loading p))
      else 4)"
  by (simp add: update_table_view_def datasetType_currentText_eq annotationType_currentText_eq
      init_default_def init_csv_def init_annotation_def set_format_def)

text \<open>
  C4 (as amended). A change of the dataset type empties both columns of the registry. A
  change of the annotation type keeps \<open>column1_files\<close> (the volumes are put back into the
  new table) and empties \<open>column2_files\<close> only when the new type is None.
\<close>

theorem mode_change_registry:
  "column1_files (Loading (datasetType_currentIndexChanged dt p)) = []
   \<and> column2_files (Loading (datasetType_currentIndexChanged dt p)) = []
   \<and> column1_files (Loading (annotationType_currentIndexChanged a p)) = column1_files (Loading p)
   \<and> column2_files (Loading (annotationType_currentIndexChanged a p))
       = (if a = AnnNone then [] else column2_files (Loading p))"
  by (simp add: datasetType_currentIndexChanged_def annotationType_currentIndexChanged_def
      update_table_view_fields file_type_options_fields update_JSON_fields
      annotation_options_fields)

text \<open>
  The claim as written fails for the annotation type: with one volume loaded, setting the
  annotation type to ID leaves that volume in \<open>column1_files\<close>.
\<close>

theorem annotation_change_keeps_column1_counterexample:
  "column1_files (Loading (annotationType_currentIndexChanged AnnID (volume_page [''/data/v1.nii''])))
     = [''/data/v1.nii'']
   \<and> column1_files (Loading (annotationType_currentIndexChanged AnnID (volume_page [''/data/v1.nii'']))) \<noteq> []"
  by (simp add: annotationType_currentIndexChanged_def update_JSON_fields
      annotation_options_fields volume_page_def)

section \<open>The schema of a mode\<close>

lemma datasetType_currentIndexChanged_mode:
  "annotationType (Loading (datasetType_currentIndexChanged dt p)) = annotationType (Loading p)"
  "graphFormat (datasetType_currentIndexChanged dt p) = graphFormat p"
  "datasetType (Loading (datasetType_currentIndexChanged dt p)) = dt"
  by (simp_all add: datasetType_currentIndexChanged_def update_table_view_fields
      file_type_options_fields)

text \<open>After a change of the dataset type the whole sheet is a function of the mode.\<close>

lemma datasetType_currentIndexChanged_fileSheet:
  assumes "annotationType (Loading p) = annotationType (Loading q)"
    and "graphFormat p = graphFormat q"
  shows "fileSheet (Loading (datasetType_currentIndexChanged dt p))
       = fileSheet (Loading (datasetType_currentIndexChanged dt q))"
  using assms
  by (cases dt; cases "annotationType (Loading q)")
     (simp_all add: datasetType_currentIndexChanged_def update_table_view_def
       file_type_options_def Let_def clear_files_def clearRows_def init_default_def
       init_csv_def init_annotation_def set_format_def)

text \<open>
  C6. When the dataset type changes, the table takes the number of columns the spec's
  table gives the mode: 2 for Volume without annotations, 4 for Volume with ID or RGB
  annotations, 3 for Graph with CSV, 2 for Graph with another format. Under Graph the
  annotation type does not matter, under Volume the graph format does not; when the
  annotation type changes (possible under Volume only, the combo is disabled under
  Graph) the table takes the columns of the new mode; and resolving the same mode again
  gives the same table (columns, header labels and widths).
\<close>

theorem mode_resolves_to_schema:
  "columnCount (fileSheet (Loading (datasetType_currentIndexChanged dt p)))
     = schema_column_count dt (annotationType (Loading p)) (graphFormat p)
   \<and> (datasetType (Loading p) = Volume \<longrightarrow>
        columnCount (fileSheet (Loading (annotationType_currentIndexChanged a p)))
          = schema_column_count Volume a (graphFormat p))
   \<and> columnCount (fileSheet (Loading (datasetType_currentIndexChanged Graph
          (p\<lparr>Loading := (Loading p)\<lparr>annotationType := a\<rparr>\<rparr>))))
       = columnCount (fileSheet (Loading (datasetType_currentIndexChanged Graph p)))
   \<and> columnCount (fileSheet (Loading (datasetType_currentIndexChanged Volume
          (p\<lparr>graphFormat := g\<rparr>))))
       = columnCount (fileSheet (Loading (datasetType_currentIndexChanged Volume p)))
   \<and> fileSheet (Loading (datasetType_currentIndexChanged dt (datasetType_currentIndexChanged dt p)))
       = fileSheet (Loading (datasetType_currentIndexChanged dt p))"
proof -
  have change: "columnCount (fileSheet (Loading (datasetType_currentIndexChanged d q)))
      = schema_column_count d (annotationType (Loading q)) (graphFormat q)" for d q
    by (cases d; cases "annotationType (Loading q)")
       (simp_all add: datasetType_currentIndexChanged_def update_table_view_columnCount
         file_type_options_fields file_type_options_columnCount)
  have annotation: "columnCount (fileSheet (Loading (annotationType_currentIndexChanged a p)))
      = schema_column_count Volume a (graphFormat p)"
    by (cases a)
       (simp_all add: annotationType_currentIndexChanged_def update_JSON_fields
         annotation_options_columnCount)
  have again: "fileSheet (Loading (datasetType_currentIndexChanged dt (datasetType_currentIndexChanged dt p)))
      = fileSheet (Loading (datasetType_currentIndexChanged dt p))"
    by (rule datasetType_currentIndexChanged_fileSheet)
       (simp_all add: datasetType_currentIndexChanged_mode)
  have format_free: "schema_column_count Volume b g = schema_column_count Volume b (graphFormat p)"
    for b
    by (cases b) simp_all
  show ?thesis
    using change annotation again format_free by simp
qed

text \<open>
  The theorem on two pages: setting the dataset type to Graph with the CSV format gives 3
  columns, and setting the annotation type to RGB on a Volume page gives 4.
\<close>

theorem mode_resolves_to_schema_witness:
  "columnCount (fileSheet (Loading (datasetType_currentIndexChanged Graph (graph_page ''CSV'' [] [])))) = 3
   \<and> columnCount (fileSheet (Loading
        (annotationType_currentIndexChanged AnnRGB (volume_page [''/data/v1.nii''])))) = 4"
proof -
  have g: "graphFormat (graph_page ''CSV'' [] []) = ''CSV''"
    by (simp add: graph_page_def AnalysisPage_init_def)
  have v: "datasetType (Loading (volume_page [''/data/v1.nii''])) = Volume"
    by (simp add: volume_page_def LoadingWidget_init_def)
  show ?thesis
    using mode_resolves_to_schema [of Graph "graph_page ''CSV'' [] []"]
      mode_resolves_to_schema [of Volume "volume_page [''/data/v1.nii'']" AnnRGB] g v
    by simp
qed

section \<open>Load requests in the modes with two columns of files\<close>

text \<open>
  C10 (the code departs from the claim). In the modes with two columns of files (Volume
  with an annotation type other than None, Graph with the CSV format) \<open>load_files\<close>
  builds a \<open>FileLoader\<close>, whose constructor raises \<open>AttributeError\<close> on \<open>self.cancel_load\<close>.
  The request ends there: the lines that clear the registry after an analysis and append
  the picked files are not reached.
\<close>

theorem load_files_two_column_modes_raise:
  assumes "\<not> (annotationType (Loading p) = AnnNone \<and> datasetType (Loading p) = Volume)"
    and "\<not> (datasetType (Loading p) = Graph \<and> graphFormat p \<noteq> ''CSV'')"
  shows "load_files dialogs p = Inl (AttributeError ''cancel_load'')"
  using assms
  by (auto simp: load_files_def Let_def FileLoader_init_def annotationType_currentText_eq
      datasetType_currentText_eq)

text \<open>The example page: one volume analyzed, then the annotation type set to ID.\<close>

lemma analyzed_annotated_page_fields:
  "analyzed analyzed_annotated_page"
  "datasetType (Loading analyzed_annotated_page) = Volume"
  "annotationType (Loading analyzed_annotated_page) = AnnID"
  "column1_files (Loading analyzed_annotated_page) = [''/data/v1.nii'']"
proof -
  let ?p = "volume_page [''/data/v1.nii'']"
  have v: "datasetType (Loading ?p) = Volume" and n: "\<not> analyzed ?p"
    by (simp_all add: volume_page_def AnalysisPage_init_def LoadingWidget_init_def)
  have c: "file_check ?p"
    by (simp add: file_check_def volume_page_def LoadingWidget_init_def)
  have run: "(case run_analysis ?p of Inr (r, q) \<Rightarrow> q | Inl e \<Rightarrow> ?p)
      = ?p\<lparr>a_thread := Some
             \<lparr>thread_class = VolumeThread,
              thread_annotation_type = Some (annotationType_currentText (annotationType (Loading ?p))),
              thread_column1_files = column1_files (Loading ?p),
              thread_column2_files = column2_files (Loading ?p),
              thread_annotation_data = annotation_data (Loading ?p),
              button_lock_connected = True, selection_signal_connected = True,
              analysis_status_connected = True, started = True\<rparr>,
           analyzed := True\<rparr>"
    by (simp add: run_analysis_volume [OF v n c])
  have page: "analyzed_annotated_page
      = annotationType_currentIndexChanged AnnID
          (case run_analysis ?p of Inr (r, q) \<Rightarrow> q | Inl e \<Rightarrow> ?p)"
    by (simp add: analyzed_annotated_page_def)
  show "analyzed analyzed_annotated_page"
    unfolding page run by (simp add: annotationType_currentIndexChanged_def)
  show "datasetType (Loading analyzed_annotated_page) = Volume"
    unfolding page run
    by (simp add: annotationType_currentIndexChanged_def update_JSON_fields
        annotation_options_fields v)
  show "annotationType (Loading analyzed_annotated_page) = AnnID"
    unfolding page run
    by (simp add: annotationType_currentIndexChanged_def update_JSON_fields
        annotation_options_fields)
  show "column1_files (Loading analyzed_annotated_page) = [''/data/v1.nii'']"
    unfolding page run
    by (simp add: annotationType_currentIndexChanged_def update_JSON_fields
        annotation_options_fields volume_page_def)
qed

text \<open>
  On that page a load request raises; a second run request is still refused and the
  registry still holds the analyzed volume.
\<close>

theorem load_files_two_column_modes_raise_witness:
  "analyzed analyzed_annotated_page
   \<and> column1_files (Loading analyzed_annotated_page) = [''/data/v1.nii'']
   \<and> load_files one_file_dialogs analyzed_annotated_page = Inl (AttributeError ''cancel_load'')"
proof -
  have a: "\<not> (annotationType (Loading analyzed_annotated_page) = AnnNone
              \<and> datasetType (Loading analyzed_annotated_page) = Volume)"
    by (simp add: analyzed_annotated_page_fields)
  have b: "\<not> (datasetType (Loading analyzed_annotated_page) = Graph
              \<and> graphFormat analyzed_annotated_page \<noteq> ''CSV'')"
    by (simp add: analyzed_annotated_page_fields)
  show ?thesis
    using load_files_two_column_modes_raise [OF a b, of one_file_dialogs]
    by (simp add: analyzed_annotated_page_fields)
qed

section \<open>Loading the annotation catalog\<close>

lemma update_queue_line_edit:
  "loadedJSON_text (update_queue w) = loadedJSON_text w"
  "loadedJSON_styleSheet (update_queue w) = loadedJSON_styleSheet w"
  by (simp_all add: update_queue_def Let_def)

lemma store_annotation_data_fields:
  "annotation_data (store_annotation_data loaded_file data w) = data"
  "loadedJSON_text (store_annotation_data loaded_file data w) = basename loaded_file"
  "loadedJSON_styleSheet (store_annotation_data loaded_file data w) = JSONdefault w"
  "column1_files (store_annotation_data loaded_file data w) = column1_files w"
  "column2_files (store_annotation_data loaded_file data w) = column2_files w"
  by (simp_all add: store_annotation_data_def update_queue_annotation_data
      update_queue_line_edit update_queue_column1_files update_queue_column2_files)

lemma JSON_error_fields:
  "annotation_data (JSON_error warning w) = annotation_data w"
  "loadedJSON_text (JSON_error warning w) = warning"
  "loadedJSON_styleSheet (JSON_error warning w) = ''border: 1px solid red;''"
  "column1_files (JSON_error warning w) = column1_files w"
  "column2_files (JSON_error warning w) = column2_files w"
  "fileSheet (JSON_error warning w) = fileSheet w"
  by (simp_all add: JSON_error_def)

text \<open>A \<open>dict\<close> whose only key is the marker is a \<open>dict\<close> \<open>{"VesselVio Annotations": v}\<close>.\<close>

lemma only_key_marker:
  "(dict_keys d = [catalog_marker]) = (\<exists>v. d = [(catalog_marker, v)])"
  by (cases d; cases "tl d") (auto simp: dict_keys_def)

text \<open>The test of lines 510 and 511 on a \<open>dict\<close>: it fails for every other set of keys.\<close>

lemma structure_test:
  "(dict_len d = 1 \<and> catalog_marker \<in> set (dict_keys d)) = (dict_keys d = [catalog_marker])"
  by (cases d; cases "tl d") (auto simp: dict_len_def dict_keys_def)

lemma load_annotation_file_refuses:
  assumes "loaded_file \<noteq> []" and "dict_keys d \<noteq> [catalog_marker]"
  shows "load_annotation_file loaded_file (JObject d) reply w
       = Returned IncorrectFiletype (JSON_error ''Incorrect filetype!'' w)"
proof -
  have "dict_len d \<noteq> 1 \<or> catalog_marker \<notin> set (dict_keys d)"
    using assms(2) structure_test [of d] by blast
  then show ?thesis
    using assms(1) by (auto simp: load_annotation_file_def)
qed

lemma load_annotation_file_marker:
  assumes "loaded_file \<noteq> []"
  shows "load_annotation_file loaded_file (JObject [(catalog_marker, v)]) reply w =
      (if annotationType w = AnnRGB \<and> RGB_check v
       then (if reply = No then Returned WarningDeclined w
             else store_value WarningConfirmed loaded_file v w)
       else store_value LoadedDirectly loaded_file v w)"
  using assms
  by (simp add: load_annotation_file_def dict_len_def dict_keys_def dict_get_def
      annotationType_currentText_eq)

lemma store_value_not_refused:
  "t \<noteq> IncorrectFiletype \<Longrightarrow> store_value t loaded_file v w \<noteq> Returned IncorrectFiletype w'"
  by (cases v) auto

text \<open>Two region definitions that share a colour triple make \<open>RGB_check\<close> true.\<close>

lemma distinct_concat_disjoint:
  "distinct (concat xss) \<Longrightarrow> i < j \<Longrightarrow> j < length xss \<Longrightarrow> set (xss ! i) \<inter> set (xss ! j) = {}"
proof (induction xss arbitrary: i j)
  case Nil
  then show ?case by simp
next
  case (Cons xs xss)
  obtain j' where j: "j = Suc j'" and j': "j' < length xss"
    using Cons.prems by (cases j) auto
  show ?case
  proof (cases i)
    case 0
    have "xss ! j' \<in> set xss"
      using j' by (rule nth_mem)
    then have "set (xss ! j') \<subseteq> set (concat xss)"
      by auto
    then show ?thesis
      using Cons.prems(1) 0 j by auto
  next
    case (Suc i')
    then have "set (xss ! i') \<inter> set (xss ! j') = {}"
      using Cons.IH [of i' j'] Cons.prems j j' by simp
    then show ?thesis
      using Suc j by simp
  qed
qed

lemma shared_colour_RGB_check:
  assumes "i < j" and "j < length regions"
    and "c \<in> set (region_colors (snd (regions ! i)))"
    and "c \<in> set (region_colors (snd (regions ! j)))"
  shows "RGB_check (JObject regions)"
proof (rule ccontr)
  assume "\<not> RGB_check (JObject regions)"
  then have d: "distinct (concat (map (\<lambda>(k, r). region_colors r) regions))"
    by simp
  have "set (map (\<lambda>(k, r). region_colors r) regions ! i)
        \<inter> set (map (\<lambda>(k, r). region_colors r) regions ! j) = {}"
    using distinct_concat_disjoint [OF d assms(1)] assms(2) by simp
  then show False
    using assms by (auto simp: case_prod_beta)
qed

lemma RGB_check_clashing_regions: "RGB_check (JObject clashing_regions)"
proof -
  have ij: "(0::nat) < 1" and j: "1 < length clashing_regions"
    by (simp_all add: clashing_regions_def)
  have ci: "rgb 255 0 0 \<in> set (region_colors (snd (clashing_regions ! 0)))"
    and cj: "rgb 255 0 0 \<in> set (region_colors (snd (clashing_regions ! 1)))"
    by (simp_all add: clashing_regions_def dict_get_def)
  show ?thesis
    using ij j ci cj by (rule shared_colour_RGB_check)
qed

lemma rgb_widget_fields:
  "annotationType rgb_widget = AnnRGB"
  "annotation_data rgb_widget = Some two_regions"
  "columnCount (fileSheet rgb_widget) = 4"
  by (simp_all add: rgb_widget_def annotated_widget_def init_annotation_def set_format_def)

lemma two_regions_not_clashing: "two_regions \<noteq> clashing_regions"
  by (simp add: two_regions_def clashing_regions_def rgb_def)

subsection \<open>Documents the validation does not expect\<close>

text \<open>
  A parsed value without a length (\<open>None\<close>, a bool, a number) makes \<open>len\<close> raise; a list or
  string of length 1 passes the length test and makes \<open>keys()\<close> raise; a list or string of
  another length is refused like a \<open>dict\<close> with the wrong keys.
\<close>

lemma load_annotation_file_no_length:
  assumes "loaded_file \<noteq> []"
  shows "load_annotation_file loaded_file JNull reply w = Raised (TypeError ''len'')"
    and "load_annotation_file loaded_file (JBool b) reply w = Raised (TypeError ''len'')"
    and "load_annotation_file loaded_file (JNumber n) reply w = Raised (TypeError ''len'')"
  using assms by (simp_all add: load_annotation_file_def)

lemma load_annotation_file_one_element:
  assumes "loaded_file \<noteq> []"
  shows "load_annotation_file loaded_file (JArray [x]) reply w = Raised (AttributeError ''keys'')"
    and "load_annotation_file loaded_file (JString [ch]) reply w = Raised (AttributeError ''keys'')"
  using assms by (simp_all add: load_annotation_file_def)

lemma load_annotation_file_other_length:
  assumes "loaded_file \<noteq> []"
  shows "length xs \<noteq> 1 \<Longrightarrow>
         load_annotation_file loaded_file (JArray xs) reply w
           = Returned IncorrectFiletype (JSON_error ''Incorrect filetype!'' w)"
    and "length s \<noteq> 1 \<Longrightarrow>
         load_annotation_file loaded_file (JString s) reply w
           = Returned IncorrectFiletype (JSON_error ''Incorrect filetype!'' w)"
  using assms by (simp_all add: load_annotation_file_def)

text \<open>
  A value under the marker key that is a non-empty list is assigned to
  \<open>self.annotation_data\<close>; on a sheet of four columns \<open>update_queue\<close> then raises, on any
  other sheet the call returns. \<open>None\<close> under the marker key is stored as \<open>None\<close>.
\<close>

lemma load_annotation_file_list_value:
  assumes "loaded_file \<noteq> []" and "annotationType w \<noteq> AnnRGB" and "xs \<noteq> []"
  shows "columnCount (fileSheet w) = 4 \<Longrightarrow>
         load_annotation_file loaded_file (JObject [(catalog_marker, JArray xs)]) reply w
           = StoredOther (JArray xs) (Some (AttributeError ''keys''))
               (update_queue_until_keys
                  (w\<lparr>loadedJSON_styleSheet := JSONdefault w,
                     loadedJSON_text := basename loaded_file,
                     annotation_data := None\<rparr>))"
    and "columnCount (fileSheet w) \<noteq> 4 \<Longrightarrow>
         load_annotation_file loaded_file (JObject [(catalog_marker, JArray xs)]) reply w
           = StoredOther (JArray xs) None (store_annotation_data loaded_file None w)"
  using assms by (simp_all add: load_annotation_file_marker)

lemma load_annotation_file_null_value:
  assumes "loaded_file \<noteq> []"
  shows "load_annotation_file loaded_file (JObject [(catalog_marker, JNull)]) reply w
       = Returned LoadedDirectly (store_annotation_data loaded_file None w)"
  using assms by (simp add: load_annotation_file_marker)

lemma update_queue_until_keys_status:
  assumes "0 < columnCount (fileSheet w)" and "r < rowCount (fileSheet w)"
  shows "item (fileSheet (update_queue_until_keys w)) r (columnCount (fileSheet w) - 1)
       = Some ''Queued...''"
  using assms by (simp add: update_queue_until_keys_def fold_setItem_item)

text \<open>
  The only exceptions the call raises before it assigns anything are those two: the
  subscript of line 525 never fails, the key having been found at line 511.
\<close>

lemma load_annotation_file_raises:
  assumes "load_annotation_file loaded_file annotation_doc reply w = Raised e"
  shows "e = TypeError ''len'' \<or> e = AttributeError ''keys''"
proof (cases annotation_doc)
  case (JObject d)
  show ?thesis
  proof (cases "dict_keys d = [catalog_marker]")
    case True
    then obtain v where "d = [(catalog_marker, v)]"
      using only_key_marker [of d] by blast
    then have "store_value WarningConfirmed loaded_file v w = Raised e
        \<or> store_value LoadedDirectly loaded_file v w = Raised e"
      using assms JObject
      by (auto simp: load_annotation_file_def dict_len_def dict_keys_def dict_get_def
          split: if_splits)
    then show ?thesis
      by (cases v) (auto split: if_splits)
  next
    case False
    then have "loaded_file \<noteq> [] \<Longrightarrow> load_annotation_file loaded_file (JObject d) reply w
        = Returned IncorrectFiletype (JSON_error ''Incorrect filetype!'' w)"
      by (rule load_annotation_file_refuses [rotated])
    then show ?thesis
      using assms JObject by (cases "loaded_file = []") (auto simp: load_annotation_file_def)
  qed
qed (use assms in \<open>auto simp: load_annotation_file_def split: if_splits\<close>)

subsection \<open>Documents that are mappings\<close>

text \<open>
  C7 (as amended). With a file chosen and a parsed document that is a mapping,
  \<open>load_annotation_file\<close> refuses the document if and only if its top-level keys are not
  exactly the one marker key \<open>VesselVio Annotations\<close>. A refusal shows \<open>Incorrect filetype!\<close>
  in the line edit, with a red border, and leaves the loaded annotation data as it was. A
  document whose only key is the marker and whose value is a mapping of regions is loaded:
  the mapping becomes the loaded annotation data and the line edit shows the name of the
  file in its default style; the one exception is the RGB mode with two regions sharing
  a colour and the user answering No to the warning, where the call changes nothing.
\<close>

theorem load_annotation_file_validates_structure:
  assumes "loaded_file \<noteq> []"
  shows "(dict_keys d \<noteq> [catalog_marker] \<longrightarrow>
            load_annotation_file loaded_file (JObject d) reply w
              = Returned IncorrectFiletype (JSON_error ''Incorrect filetype!'' w))
    \<and> (dict_keys d = [catalog_marker] \<longrightarrow>
          (\<forall>w'. load_annotation_file loaded_file (JObject d) reply w
                  \<noteq> Returned IncorrectFiletype w'))
    \<and> loadedJSON_text (JSON_error ''Incorrect filetype!'' w) = ''Incorrect filetype!''
    \<and> loadedJSON_styleSheet (JSON_error ''Incorrect filetype!'' w) = ''border: 1px solid red;''
    \<and> annotation_data (JSON_error ''Incorrect filetype!'' w) = annotation_data w
    \<and> (\<forall>regions. d = [(catalog_marker, JObject regions)]
           \<and> \<not> (annotationType w = AnnRGB \<and> RGB_check (JObject regions) \<and> reply = No) \<longrightarrow>
          (load_annotation_file loaded_file (JObject d) reply w
             = Returned LoadedDirectly (store_annotation_data loaded_file (Some regions) w)
           \<or> load_annotation_file loaded_file (JObject d) reply w
             = Returned WarningConfirmed (store_annotation_data loaded_file (Some regions) w))
          \<and> annotation_data (store_annotation_data loaded_file (Some regions) w) = Some regions
          \<and> loadedJSON_text (store_annotation_data loaded_file (Some regions) w)
              = basename loaded_file
          \<and> loadedJSON_styleSheet (store_annotation_data loaded_file (Some regions) w)
              = JSONdefault w)
    \<and> (\<forall>regions. d = [(catalog_marker, JObject regions)]
           \<and> annotationType w = AnnRGB \<and> RGB_check (JObject regions) \<and> reply = No \<longrightarrow>
          load_annotation_file loaded_file (JObject d) reply w = Returned WarningDeclined w)"
proof -
  have refused: "load_annotation_file loaded_file (JObject d) reply w
      = Returned IncorrectFiletype (JSON_error ''Incorrect filetype!'' w)"
    if "dict_keys d \<noteq> [catalog_marker]"
    using assms that by (rule load_annotation_file_refuses)
  have passed: "load_annotation_file loaded_file (JObject d) reply w
      \<noteq> Returned IncorrectFiletype w'"
    if only: "dict_keys d = [catalog_marker]" for w'
  proof -
    obtain v where "d = [(catalog_marker, v)]"
      using only only_key_marker [of d] by blast
    then show ?thesis
      using load_annotation_file_marker [OF assms, of v reply w]
      by (simp add: store_value_not_refused)
  qed
  have loaded: "load_annotation_file loaded_file (JObject d) reply w
        = Returned LoadedDirectly (store_annotation_data loaded_file (Some regions) w)
      \<or> load_annotation_file loaded_file (JObject d) reply w
        = Returned WarningConfirmed (store_annotation_data loaded_file (Some regions) w)"
    if "d = [(catalog_marker, JObject regions)]"
      and "\<not> (annotationType w = AnnRGB \<and> RGB_check (JObject regions) \<and> reply = No)"
    for regions
    using that load_annotation_file_marker [OF assms, of "JObject regions" reply w]
    by auto
  have declined: "load_annotation_file loaded_file (JObject d) reply w = Returned WarningDeclined w"
    if "d = [(catalog_marker, JObject regions)]" and "annotationType w = AnnRGB"
      and "RGB_check (JObject regions)" and "reply = No"
    for regions
    using that load_annotation_file_marker [OF assms, of "JObject regions" reply w]
    by simp
  show ?thesis
    using refused passed loaded declined
    by (simp add: JSON_error_fields store_annotation_data_fields)
qed

text \<open>
  The theorem on the annotated example, where two regions are loaded: a document with
  the key \<open>foo\<close> and a document with two keys are refused, the line edit shows the
  refusal and the two regions stay; the document with the marker key alone is loaded and
  the line edit shows \<open>a.json\<close>; in the RGB mode the document with clashing colours
  changes nothing when the user answers No.
\<close>

theorem load_annotation_file_validates_structure_witness:
  "load_annotation_file ''/d/a.json'' (JObject [(''foo'', JObject clashing_regions)]) Yes
       (annotated_widget (Some two_regions))
     = Returned IncorrectFiletype
         (JSON_error ''Incorrect filetype!'' (annotated_widget (Some two_regions)))
   \<and> load_annotation_file ''/d/a.json''
       (JObject [(catalog_marker, JObject clashing_regions), (''foo'', JObject two_regions)]) Yes
       (annotated_widget (Some two_regions))
     = Returned IncorrectFiletype
         (JSON_error ''Incorrect filetype!'' (annotated_widget (Some two_regions)))
   \<and> loadedJSON_text (JSON_error ''Incorrect filetype!'' (annotated_widget (Some two_regions)))
       = ''Incorrect filetype!''
   \<and> annotation_data (JSON_error ''Incorrect filetype!'' (annotated_widget (Some two_regions)))
       = Some two_regions
   \<and> load_annotation_file ''/d/a.json'' (JObject [(catalog_marker, JObject clashing_regions)]) Yes
       (annotated_widget (Some two_regions))
     = Returned LoadedDirectly
         (store_annotation_data ''/d/a.json'' (Some clashing_regions)
            (annotated_widget (Some two_regions)))
   \<and> annotation_data (store_annotation_data ''/d/a.json'' (Some clashing_regions)
         (annotated_widget (Some two_regions))) = Some clashing_regions
   \<and> loadedJSON_text (store_annotation_data ''/d/a.json'' (Some clashing_regions)
         (annotated_widget (Some two_regions))) = ''a.json''
   \<and> load_annotation_file ''/d/a.json'' (JObject [(catalog_marker, JObject clashing_regions)]) No
       rgb_widget
     = Returned WarningDeclined rgb_widget"
proof -
  let ?w = "annotated_widget (Some two_regions)"
  have f: "''/d/a.json'' \<noteq> []"
    by simp
  have keys: "dict_keys [(''foo'', JObject clashing_regions)] \<noteq> [catalog_marker]"
    "dict_keys [(catalog_marker, JObject clashing_regions), (''foo'', JObject two_regions)]
       \<noteq> [catalog_marker]"
    by (simp_all add: dict_keys_def catalog_marker_def)
  have data: "annotation_data ?w = Some two_regions"
    by (simp add: annotated_widget_def)
  have id: "annotationType ?w \<noteq> AnnRGB"
    by (simp add: annotated_widget_def)
  have name: "basename ''/d/a.json'' = ''a.json''"
    by (simp add: basename_def)
  have direct: "load_annotation_file ''/d/a.json''
        (JObject [(catalog_marker, JObject clashing_regions)]) Yes ?w
      \<noteq> Returned WarningConfirmed (store_annotation_data ''/d/a.json'' (Some clashing_regions) ?w)"
    using id by (simp add: load_annotation_file_marker [OF f])
  show ?thesis
    using load_annotation_file_validates_structure
        [OF f, of "[(''foo'', JObject clashing_regions)]" Yes ?w]
      load_annotation_file_validates_structure
        [OF f, of "[(catalog_marker, JObject clashing_regions), (''foo'', JObject two_regions)]"
          Yes ?w]
      load_annotation_file_validates_structure
        [OF f, of "[(catalog_marker, JObject clashing_regions)]" Yes ?w]
      load_annotation_file_validates_structure
        [OF f, of "[(catalog_marker, JObject clashing_regions)]" No rgb_widget]
      keys data id name direct RGB_check_clashing_regions rgb_widget_fields
    by simp
qed

text \<open>
  The claim as written fails in the RGB mode: the document has exactly the marker key,
  yet with two regions sharing a colour and the answer No the load does not take place,
  and the two regions loaded before remain the annotation data.
\<close>

theorem load_declined_is_not_loaded_counterexample:
  "dict_keys [(catalog_marker, JObject clashing_regions)] = [catalog_marker]
   \<and> load_annotation_file ''/d/a.json'' (JObject [(catalog_marker, JObject clashing_regions)]) No
       rgb_widget
     = Returned WarningDeclined rgb_widget
   \<and> annotation_data rgb_widget = Some two_regions
   \<and> annotation_data rgb_widget \<noteq> Some clashing_regions"
proof -
  have f: "''/d/a.json'' \<noteq> []"
    by simp
  show ?thesis
    using RGB_check_clashing_regions
    by (simp add: load_annotation_file_marker [OF f] rgb_widget_fields
        two_regions_not_clashing dict_keys_def)
qed

text \<open>
  C8. In the RGB mode, loading a structurally valid document whose catalog has two regions
  that share a colour triple shows the duplicate-colour warning. When the user answers
  No the load stops and the widget is exactly as before; when the user answers Yes the
  catalog of the document becomes the loaded annotation data.
\<close>

theorem load_annotation_file_duplicate_colours:
  assumes "loaded_file \<noteq> []" and "annotationType w = AnnRGB"
    and "i < j" and "j < length regions"
    and "c \<in> set (region_colors (snd (regions ! i)))"
    and "c \<in> set (region_colors (snd (regions ! j)))"
  shows "load_annotation_file loaded_file (JObject [(catalog_marker, JObject regions)]) No w
           = Returned WarningDeclined w
    \<and> load_annotation_file loaded_file (JObject [(catalog_marker, JObject regions)]) Yes w
           = Returned WarningConfirmed (store_annotation_data loaded_file (Some regions) w)
    \<and> annotation_data (store_annotation_data loaded_file (Some regions) w) = Some regions"
proof -
  have "RGB_check (JObject regions)"
    using assms(3-6) by (rule shared_colour_RGB_check)
  then show ?thesis
    using assms(2)
    by (simp add: load_annotation_file_marker [OF assms(1)] store_annotation_data_fields)
qed

text \<open>
  The theorem on the RGB example with the clashing catalog: declining keeps the widget and
  its catalog of two regions, confirming stores the clashing catalog.
\<close>

theorem load_annotation_file_duplicate_colours_witness:
  "load_annotation_file ''/d/a.json'' (JObject [(catalog_marker, JObject clashing_regions)]) No
       rgb_widget
     = Returned WarningDeclined rgb_widget
   \<and> annotation_data rgb_widget = Some two_regions
   \<and> load_annotation_file ''/d/a.json'' (JObject [(catalog_marker, JObject clashing_regions)]) Yes
       rgb_widget
     = Returned WarningConfirmed
         (store_annotation_data ''/d/a.json'' (Some clashing_regions) rgb_widget)
   \<and> annotation_data (store_annotation_data ''/d/a.json'' (Some clashing_regions) rgb_widget)
       = Some clashing_regions"
proof -
  have f: "''/d/a.json'' \<noteq> []"
    by simp
  have m: "annotationType rgb_widget = AnnRGB"
    by (simp add: rgb_widget_fields)
  have ij: "(0::nat) < 1" and j: "1 < length clashing_regions"
    by (simp_all add: clashing_regions_def)
  have ci: "rgb 255 0 0 \<in> set (region_colors (snd (clashing_regions ! 0)))"
    and cj: "rgb 255 0 0 \<in> set (region_colors (snd (clashing_regions ! 1)))"
    by (simp_all add: clashing_regions_def dict_get_def)
  show ?thesis
    using load_annotation_file_duplicate_colours [OF f m ij j ci cj]
    by (simp add: rgb_widget_fields)
qed

end
